theory Spec2Isabelle
  imports Main
begin

section \<open>Shared data: exceptions and the object registry\<close>

text \<open>
  Python exceptions that the modelled code raises, catches or lets through.
  A function of the source that can raise returns \<open>exc + 'a\<close>, \<open>Inl\<close> being the
  exception.
\<close>

datatype exc =
    KeyError
  | AttributeError
  | BinasciiError
  | ValueError
  | UnboundLocalError
  | PermissionError
  | FileNotFoundError
  | IndexError
  | TypeError
  | OSError
  | UnicodeDecodeError

type_synonym bytes = "nat list"

text \<open>
  The objects that the three source files fetch from \<open>objreg\<close>. Only the attributes
  that the modelled code reads are kept.
\<close>

record prompter_obj =
  question_active :: bool

record config_object =
  auto_save_config :: bool

record download_manager_obj =
  downloads :: "string list"

record tabbed_browser_obj =
  tab_urls :: "(exc + string) list"

record main_window_obj =
  saved_geometry :: bytes

record status_command_obj =
  history :: "string list"

type_synonym state_config_obj = "string \<rightharpoonup> (string \<rightharpoonup> string)"

text \<open>
  \<open>objreg\<close>: the global registry, a dictionary from names to objects. Each name the
  code uses is a field; \<open>None\<close> is an unregistered name.
\<close>

record objreg =
  reg_prompter :: "prompter_obj option"
  reg_mode_manager :: "unit option"
  reg_tabbed_browser :: "tabbed_browser_obj option"
  reg_config :: "config_object option"
  reg_key_config :: "unit option"
  reg_command_history :: "unit option"
  reg_state_config :: "state_config_obj option"
  reg_cookie_jar :: "unit option"
  reg_main_window :: "main_window_obj option"
  reg_download_manager :: "download_manager_obj option"
  reg_status_command :: "status_command_obj option"

text \<open>\<open>objreg.get(name)\<close>: the object, or \<open>KeyError\<close>.\<close>

definition objreg_get :: "(objreg \<Rightarrow> 'a option) \<Rightarrow> objreg \<Rightarrow> exc + 'a" where
  "objreg_get name reg = (case name reg of None \<Rightarrow> Inl KeyError | Some ob \<Rightarrow> Inr ob)"

text \<open>\<open>objreg.clear()\<close>: every name unregistered.\<close>

definition objreg_clear :: "objreg" where
  "objreg_clear =
     \<lparr> reg_prompter = None, reg_mode_manager = None, reg_tabbed_browser = None,
       reg_config = None, reg_key_config = None, reg_command_history = None,
       reg_state_config = None, reg_cookie_jar = None, reg_main_window = None,
       reg_download_manager = None, reg_status_command = None \<rparr>"

section \<open>models/downloadmodel.py\<close>

text \<open>A \<open>QModelIndex\<close>, as far as the model reads it.\<close>

record QModelIndex =
  isValid :: bool
  row :: int
  column :: int

text \<open>The item flags of Qt (\<open>Qt.ItemFlag\<close>); a \<open>Qt.ItemFlags\<close> value is a set of them.\<close>

datatype ItemFlag =
    ItemIsSelectable
  | ItemIsEditable
  | ItemIsDragEnabled
  | ItemIsDropEnabled
  | ItemIsUserCheckable
  | ItemIsEnabled
  | ItemIsTristate

text \<open>
  \<^verbatim>\<open>
  def flags(self, _index):
      return Qt.ItemIsEnabled
  \<close>
\<close>

definition flags :: "QModelIndex \<Rightarrow> ItemFlag set" where
  "flags index = {ItemIsEnabled}"

text \<open>
  \<^verbatim>\<open>
  def rowCount(self, parent=QModelIndex()):
      if parent.isValid():
          return 0
      try:
          download_manager = objreg.get('download-manager')
      except KeyError:
          return 0
      else:
          return len(download_manager.downloads)
  \<close>
\<close>

definition rowCount :: "objreg \<Rightarrow> QModelIndex \<Rightarrow> exc + nat" where
  "rowCount reg parent =
     (if isValid parent then Inr 0
      else case objreg_get reg_download_manager reg of
             Inl KeyError \<Rightarrow> Inr 0
           | Inl e \<Rightarrow> Inl e
           | Inr download_manager \<Rightarrow> Inr (length (downloads download_manager)))"

section \<open>Logging\<close>

text \<open>
  A call of a logger (\<open>log.init\<close>, \<open>log.destroy\<close>) is recorded with its level and
  its message; \<open>logger.exception\<close> is the level \<open>Exception\<close>. An argument of
  \<open>format\<close> that is a string is written into the message, an argument of another type
  is left as \<open>{}\<close>.
\<close>

datatype log_level = Debug | Info | Warning | Exception

type_synonym log_entry = "log_level \<times> string"

section \<open>widgets/mainwindow.py\<close>

record QRect =
  rect_x :: int
  rect_y :: int
  rect_width :: int
  rect_height :: int

text \<open>The window as far as the constructor's geometry code writes it, and the log.\<close>

record window_state =
  geometry :: QRect
  init_log :: "log_entry list"

definition log_init :: "log_level \<Rightarrow> string \<Rightarrow> window_state \<Rightarrow> window_state" where
  "log_init lvl msg w = w\<lparr>init_log := init_log w @ [(lvl, msg)]\<rparr>"

text \<open>
  \<^verbatim>\<open>
  def _set_default_geometry(self):
      self.setGeometry(QRect(50, 50, 800, 600))
  \<close>
\<close>

definition set_default_geometry :: "window_state \<Rightarrow> window_state" where
  "set_default_geometry w =
     w\<lparr>geometry := \<lparr>rect_x = 50, rect_y = 50, rect_width = 800, rect_height = 600\<rparr>\<rparr>"

text \<open>\<open>state_config[section][key]\<close>: \<open>KeyError\<close> when the section or the key is missing.\<close>

definition state_config_item :: "state_config_obj \<Rightarrow> string \<Rightarrow> string \<Rightarrow> exc + string" where
  "state_config_item state_config section key =
     (case state_config section of
        None \<Rightarrow> Inl KeyError
      | Some sec \<Rightarrow> (case sec key of None \<Rightarrow> Inl KeyError | Some v \<Rightarrow> Inr v))"

text \<open>
  The \<open>except\<close> clauses of the first \<open>try\<close> of the constructor: \<open>KeyError\<close> (first start)
  sets the default geometry and logs nothing, \<open>binascii.Error\<close> logs and sets the default
  geometry, any other exception is not caught.
\<close>

definition geometry_except :: "exc \<Rightarrow> window_state \<Rightarrow> exc option \<times> window_state" where
  "geometry_except e w =
     (case e of
        KeyError \<Rightarrow> (None, set_default_geometry w)
      | BinasciiError \<Rightarrow>
          (None, set_default_geometry (log_init Exception ''Error while reading geometry'' w))
      | _ \<Rightarrow> (Some e, w))"

text \<open>
  The constructor of \<open>MainWindow\<close> up to the log line of the initial geometry (the rest
  builds the child widgets and does not touch the geometry):
  \<^verbatim>\<open>
  state_config = objreg.get('state-config')
  try:
      data = state_config['geometry']['mainwindow']
      log.init.debug("Restoring mainwindow from {}".format(data))
      geom = base64.b64decode(data, validate=True)
  except KeyError:
      # First start
      self._set_default_geometry()
  except binascii.Error:
      log.init.exception("Error while reading geometry")
      self._set_default_geometry()
  else:
      try:
          ok = self.restoreGeometry(geom)
      except KeyError:
          log.init.exception("Error while restoring geometry.")
          self._set_default_geometry()
      if not ok:
          log.init.warning("Error while restoring geometry.")
          self._set_default_geometry()
  log.init.debug("Initial mainwindow geometry: {}".format(self.geometry()))
  \<close>
  \<open>base64.b64decode\<close> and \<open>QWidget.restoreGeometry\<close> are library code and are parameters:
  \<open>b64decode data\<close> is the decoded bytes or the exception raised, \<open>restoreGeometry geom\<close>
  is the exception raised, \<open>Inr None\<close> for the result \<open>False\<close> (geometry unchanged), or
  \<open>Inr (Some r)\<close> for the result \<open>True\<close> with the window moved to \<open>r\<close>. When
  \<open>restoreGeometry\<close> raises \<open>KeyError\<close>, the handler runs and leaves \<open>ok\<close> unassigned, so
  the following \<open>if not ok\<close> raises \<open>UnboundLocalError\<close>. The result is the exception
  that leaves the constructor, if any, and the window.
\<close>

definition MainWindow_init ::
  "(string \<Rightarrow> exc + bytes) \<Rightarrow> (bytes \<Rightarrow> exc + QRect option) \<Rightarrow> objreg \<Rightarrow> window_state
     \<Rightarrow> exc option \<times> window_state" where
  "MainWindow_init b64decode restoreGeometry reg w =
     (case objreg_get reg_state_config reg of
        Inl e \<Rightarrow> (Some e, w)
      | Inr state_config \<Rightarrow>
          (case
             (case state_config_item state_config ''geometry'' ''mainwindow'' of
                Inl e \<Rightarrow> geometry_except e w
              | Inr data \<Rightarrow>
                  (let w1 = log_init Debug (''Restoring mainwindow from '' @ data) w in
                   case b64decode data of
                     Inl e \<Rightarrow> geometry_except e w1
                   | Inr geom \<Rightarrow>
                       (case restoreGeometry geom of
                          Inl KeyError \<Rightarrow>
                            (Some UnboundLocalError,
                             set_default_geometry
                               (log_init Exception ''Error while restoring geometry.'' w1))
                        | Inl e \<Rightarrow> (Some e, w1)
                        | Inr None \<Rightarrow>
                            (None,
                             set_default_geometry
                               (log_init Warning ''Error while restoring geometry.'' w1))
                        | Inr (Some r) \<Rightarrow> (None, w1\<lparr>geometry := r\<rparr>))))
           of
             (Some e, w2) \<Rightarrow> (Some e, w2)
           | (None, w2) \<Rightarrow> (None, log_init Debug ''Initial mainwindow geometry: {}'' w2)))"

text \<open>The fixed rectangle of \<open>_set_default_geometry\<close>.\<close>

definition default_rect :: QRect where
  "default_rect = \<lparr>rect_x = 50, rect_y = 50, rect_width = 800, rect_height = 600\<rparr>"

text \<open>The entries of a log at warning level or above: the ones that report a failure.\<close>

definition failures_logged :: "log_entry list \<Rightarrow> log_entry list" where
  "failures_logged l = filter (\<lambda>(lvl, msg). lvl = Warning \<or> lvl = Exception) l"

section \<open>Example inputs for the main window\<close>

text \<open>
  Concrete library behaviour and stored state for evaluating the constructor: a decoder
  that accepts two strings, a \<open>restoreGeometry\<close> that accepts one blob, a state
  configuration holding one geometry entry, and a window before construction.
\<close>

definition example_b64decode :: "string \<Rightarrow> exc + bytes" where
  "example_b64decode data =
     (if data = ''AAAA'' then Inr [0, 0, 0]
      else if data = ''AQID'' then Inr [1, 2, 3]
      else Inl BinasciiError)"

definition example_restoreGeometry :: "bytes \<Rightarrow> exc + QRect option" where
  "example_restoreGeometry geom =
     (if geom = [1, 2, 3]
      then Inr (Some \<lparr>rect_x = 0, rect_y = 0, rect_width = 1024, rect_height = 768\<rparr>)
      else Inr None)"

definition example_state_config :: "string \<Rightarrow> state_config_obj" where
  "example_state_config data = Map.empty(''geometry'' \<mapsto> Map.empty(''mainwindow'' \<mapsto> data))"

definition example_window :: window_state where
  "example_window = \<lparr>geometry = \<lparr>rect_x = 0, rect_y = 0, rect_width = 640, rect_height = 480\<rparr>, init_log = []\<rparr>"

section \<open>app.py: state and environment\<close>

text \<open>
  Python's \<open>SystemExit\<close>, raised by \<open>sys.exit\<close>, is not a subclass of \<open>Exception\<close>: an
  \<open>except Exception\<close> clause lets it through. A function of \<open>Application\<close> returns the
  exception that leaves it, if any (the outcome), and the state it leaves behind.
\<close>

datatype outcome = Returns | Raises exc | SystemExit int

text \<open>The three handlers that the application installs for SIGINT and SIGTERM.\<close>

datatype sig_handler =
    H_interrupt
  | H_interrupt_forcefully
  | H_interrupt_really_forcefully

datatype signal = SIGINT | SIGTERM

text \<open>The numbers of the two signals (\<open>signal.SIGINT\<close>, \<open>signal.SIGTERM\<close>).\<close>

fun signum :: "signal \<Rightarrow> int" where
  "signum SIGINT = 2"
| "signum SIGTERM = 15"

text \<open>
  What \<open>QTimer.singleShot(0, f)\<close> queues for the next iteration of the run loop:
  \<open>partial(self.shutdown, status)\<close>, \<open>partial(self._shutdown, status)\<close> and
  \<open>partial(self.exit, status)\<close>.
\<close>

datatype callback =
    Cb_shutdown int
  | Cb_stage2 int
  | Cb_exit int

text \<open>The save handlers that \<open>_shutdown\<close> collects in \<open>to_save\<close>.\<close>

datatype save_handler =
    Config_save
  | KeyConfig_save
  | Save_geometry
  | Quickmarks_save
  | CommandHistory_save
  | StateConfig_save
  | CookieJar_save

datatype dialog =
    FatalCrashDialog string
  | ExceptionCrashDialog "string list" "string list" string

datatype dialog_code = Rejected | Accepted

text \<open>Where \<open>faulthandler\<close> writes: nowhere, to \<open>sys.__stderr__\<close>, or to the file of a path.\<close>

datatype fault_target = FH_disabled | FH_stderr | FH_file string

text \<open>An open file object: its \<open>name\<close> and whether it has been closed.\<close>

record file_handle =
  fname :: string
  closed :: bool

text \<open>
  The state that the modelled methods read and write: the attributes of \<open>Application\<close>,
  the registry, the signal table, the queue of the run loop, the files, and traces of
  what was done to the outside (dialogs shown, processes spawned, save handlers called,
  lines printed, log entries).
\<close>

record app =
  shutting_down :: bool
  quit_status_crash :: bool
  crashdlg :: "dialog option"
  crashlogfile :: "file_handle option"
  registry :: objreg
  sigint_handler :: sig_handler
  sigterm_handler :: sig_handler
  pending :: "callback list"
  files :: "string \<rightharpoonup> string"
  faulthandler :: fault_target
  faulthandler_sigusr1 :: bool
  message_handler :: bool
  event_filter :: bool
  tabs_shut_down :: bool
  lastWindowClosed_connected :: bool
  windows_closed :: bool
  dialogs_shown :: "dialog list"
  spawned :: "(string list \<times> string option) list"
  invoked :: "save_handler list"
  exit_status :: "int option"
  printed :: "string list"
  logged :: "log_entry list"

text \<open>
  What the methods read from outside the class: the data directory, whether its files
  may be read, whether the directory lets a file be removed, the interpreter (\<open>sys.argv\<close>, \<open>sys.executable\<close>,
  \<open>sys.frozen\<close>, \<open>sys.__stderr__\<close>, \<open>signal.SIGUSR1\<close>), the package's file, the
  library functions \<open>os.path.abspath\<close> and \<open>base64.b64encode\<close>, what each save handler
  of another module raises, what \<open>get_all_objects\<close> gives, and the user's answer to the
  crash dialog.
\<close>

record env =
  data_dir :: string
  read_permitted :: bool
  remove_permitted :: bool
  have_sigusr1 :: bool
  stderr_present :: bool
  debug_exit :: bool
  argv :: "string list"
  executable :: string
  frozen :: bool
  package_file :: string
  abspath :: "string \<Rightarrow> string"
  b64encode :: "bytes \<Rightarrow> string"
  save_raises :: "save_handler \<Rightarrow> exc option"
  all_objects :: "exc + string"
  dialog_result :: dialog_code

definition log_msg :: "log_level \<Rightarrow> string \<Rightarrow> app \<Rightarrow> app" where
  "log_msg lvl msg a = a\<lparr>logged := logged a @ [(lvl, msg)]\<rparr>"

section \<open>app.py: paths and files\<close>

text \<open>\<open>os.path.join(a, b)\<close>, \<open>os.path.basename\<close> and \<open>os.path.dirname\<close> of \<open>posixpath\<close>.\<close>

definition path_join :: "string \<Rightarrow> string \<Rightarrow> string" where
  "path_join a b =
     (if b \<noteq> [] \<and> hd b = CHR ''/'' then b
      else if a = [] \<or> last a = CHR ''/'' then a @ b
      else a @ ''/'' @ b)"

definition basename :: "string \<Rightarrow> string" where
  "basename p = rev (takeWhile (\<lambda>c. c \<noteq> CHR ''/'') (rev p))"

definition dirname :: "string \<Rightarrow> string" where
  "dirname p =
     (let head = rev (dropWhile (\<lambda>c. c \<noteq> CHR ''/'') (rev p))
      in if head \<noteq> [] \<and> (\<exists>c \<in> set head. c \<noteq> CHR ''/'')
         then rev (dropWhile (\<lambda>c. c = CHR ''/'') (rev head))
         else head)"

text \<open>\<open>str.startswith('-')\<close>.\<close>

definition startswith_dash :: "string \<Rightarrow> bool" where
  "startswith_dash s = (s \<noteq> [] \<and> hd s = CHR ''-'')"

text \<open>
  \<open>os.remove(path)\<close>: \<open>FileNotFoundError\<close> for a missing file, \<open>PermissionError\<close> when the
  directory does not let it be removed, the files without it otherwise.
\<close>

definition os_remove :: "env \<Rightarrow> string \<Rightarrow> (string \<rightharpoonup> string) \<Rightarrow> exc + (string \<rightharpoonup> string)" where
  "os_remove e path fs =
     (if fs path = None then Inl FileNotFoundError
      else if \<not> remove_permitted e then Inl PermissionError
      else Inr (fs(path := None)))"

text \<open>
  A string that decodes as ASCII: every byte is below 128 (its highest bit is not set).
\<close>

definition is_ascii :: "string \<Rightarrow> bool" where
  "is_ascii s = list_all (\<lambda>c. \<not> digit7 c) s"

text \<open>
  Reading a text file whole:
  \<^verbatim>\<open>
  with open(path, 'r', encoding='ascii') as f:
      data = f.read()
  \<close>
  \<open>open\<close> raises \<open>FileNotFoundError\<close> for a missing file and \<open>PermissionError\<close> for a
  file that may not be read; \<open>read\<close> raises \<open>UnicodeDecodeError\<close> when the content
  does not decode as ASCII.
\<close>

definition read_text :: "env \<Rightarrow> string \<Rightarrow> (string \<rightharpoonup> string) \<Rightarrow> exc + string" where
  "read_text e path fs =
     (case fs path of
        None \<Rightarrow> Inl FileNotFoundError
      | Some content \<Rightarrow>
          (if \<not> read_permitted e then Inl PermissionError
           else if \<not> is_ascii content then Inl UnicodeDecodeError
           else Inr content))"

text \<open>The path of the crash log: \<open>os.path.join(path, 'crash.log')\<close>.\<close>

definition logname :: "env \<Rightarrow> string" where
  "logname e = path_join (data_dir e) ''crash.log''"

section \<open>app.py: the crash log\<close>

text \<open>
  \<^verbatim>\<open>
  def _init_crashlogfile(self):
      path = utils.get_standard_dir(QStandardPaths.DataLocation)
      logname = os.path.join(path, 'crash.log')
      self._crashlogfile = open(logname, 'w', encoding='ascii')
      faulthandler.enable(self._crashlogfile)
      if (hasattr(faulthandler, 'register') and hasattr(signal, 'SIGUSR1')):
          faulthandler.register(signal.SIGUSR1)
  \<close>
  Opening for writing creates the file, or empties it. The \<open>open\<close> is taken to succeed.
\<close>

definition init_crashlogfile :: "env \<Rightarrow> app \<Rightarrow> app" where
  "init_crashlogfile e a =
     a\<lparr>files := (files a)(logname e \<mapsto> []),
       crashlogfile := Some \<lparr>fname = logname e, closed = False\<rparr>,
       faulthandler := FH_file (logname e),
       faulthandler_sigusr1 := (have_sigusr1 e \<or> faulthandler_sigusr1 a)\<rparr>"

text \<open>Creating and showing the dialog of a crash of the previous run.\<close>

definition show_fatal_crash_dialog :: "string \<Rightarrow> app \<Rightarrow> app" where
  "show_fatal_crash_dialog data a =
     a\<lparr>crashdlg := Some (FatalCrashDialog data),
       dialogs_shown := dialogs_shown a @ [FatalCrashDialog data]\<rparr>"

text \<open>
  \<^verbatim>\<open>
  def _handle_segfault(self):
      path = utils.get_standard_dir(QStandardPaths.DataLocation)
      logname = os.path.join(path, 'crash.log')
      if os.path.exists(logname):
          with open(logname, 'r', encoding='ascii') as f:
              data = f.read()
          if data:
              try:
                  os.remove(logname)
              except PermissionError:
                  log.init.warning("Could not remove crash log!")
              else:
                  self._init_crashlogfile()
              self._crashdlg = crash.FatalCrashDialog(data)
              self._crashdlg.show()
          else:
              log.init.warning("Empty crash log detected. ...".format(logname))
              self._crashlogfile = None
      else:
          self._init_crashlogfile()
  \<close>
  An exception of \<open>open\<close> or \<open>read\<close> is not caught and leaves the method.
\<close>

definition handle_segfault :: "env \<Rightarrow> app \<Rightarrow> outcome \<times> app" where
  "handle_segfault e a =
     (if files a (logname e) \<noteq> None then
        (case read_text e (logname e) (files a) of
           Inl ex \<Rightarrow> (Raises ex, a)
         | Inr data \<Rightarrow>
             (if data \<noteq> [] then
                (case os_remove e (logname e) (files a) of
                   Inl PermissionError \<Rightarrow>
                     (Returns,
                      show_fatal_crash_dialog data
                        (log_msg Warning ''Could not remove crash log!'' a))
                 | Inl ex \<Rightarrow> (Raises ex, a)
                 | Inr fs \<Rightarrow>
                     (Returns,
                      show_fatal_crash_dialog data (init_crashlogfile e (a\<lparr>files := fs\<rparr>))))
              else
                (Returns,
                 (log_msg Warning
                    (''Empty crash log detected. This means either another instance is '' @
                     ''running (then ignore this warning) or the file is lying here '' @
                     ''because of some earlier crash (then delete '' @ logname e @ '').'')
                    a)\<lparr>crashlogfile := None\<rparr>)))
      else (Returns, init_crashlogfile e a))"

text \<open>
  \<^verbatim>\<open>
  def _destroy_crashlogfile(self):
      if self._crashlogfile is None:
          return
      if sys.__stderr__ is not None:
          faulthandler.enable(sys.__stderr__)
      else:
          faulthandler.disable()
      self._crashlogfile.close()
      try:
          os.remove(self._crashlogfile.name)
      except (PermissionError, FileNotFoundError):
          log.destroy.exception("Could not remove crash log!")
  \<close>
\<close>

definition destroy_crashlogfile :: "env \<Rightarrow> app \<Rightarrow> outcome \<times> app" where
  "destroy_crashlogfile e a =
     (case crashlogfile a of
        None \<Rightarrow> (Returns, a)
      | Some f \<Rightarrow>
          (let a1 = a\<lparr>faulthandler := (if stderr_present e then FH_stderr else FH_disabled),
                       crashlogfile := Some (f\<lparr>closed := True\<rparr>)\<rparr>
           in case os_remove e (fname f) (files a1) of
                Inl PermissionError \<Rightarrow>
                  (Returns, log_msg Exception ''Could not remove crash log!'' a1)
              | Inl FileNotFoundError \<Rightarrow>
                  (Returns, log_msg Exception ''Could not remove crash log!'' a1)
              | Inl ex \<Rightarrow> (Raises ex, a1)
              | Inr fs \<Rightarrow> (Returns, a1\<lparr>files := fs\<rparr>)))"

section \<open>app.py: shutdown\<close>

text \<open>Sequencing: the next statement runs when the one before it returned.\<close>

definition and_then :: "outcome \<times> app \<Rightarrow> (app \<Rightarrow> outcome \<times> app) \<Rightarrow> outcome \<times> app" where
  "and_then r f = (case r of (Returns, a) \<Rightarrow> f a | (out, a) \<Rightarrow> (out, a))"

text \<open>
  \<^verbatim>\<open>
  def _save_geometry(self):
      state_config = objreg.get('state-config')
      data = bytes(objreg.get('main-window').saveGeometry())
      geom = base64.b64encode(data).decode('ASCII')
      try:
          state_config.add_section('geometry')
      except configparser.DuplicateSectionError:
          pass
      state_config['geometry']['mainwindow'] = geom
  \<close>
\<close>

definition save_geometry :: "env \<Rightarrow> app \<Rightarrow> outcome \<times> app" where
  "save_geometry e a =
     (case objreg_get reg_state_config (registry a) of
        Inl ex \<Rightarrow> (Raises ex, a)
      | Inr state_config \<Rightarrow>
          (case objreg_get reg_main_window (registry a) of
             Inl ex \<Rightarrow> (Raises ex, a)
           | Inr main_window \<Rightarrow>
               (let geom = b64encode e (saved_geometry main_window);
                    sec = (case state_config ''geometry'' of None \<Rightarrow> Map.empty | Some s \<Rightarrow> s)
                in (Returns,
                    a\<lparr>registry := (registry a)
                         \<lparr>reg_state_config :=
                            Some (state_config(''geometry'' \<mapsto> sec(''mainwindow'' \<mapsto> geom)))\<rparr>\<rparr>))))"

text \<open>
  Calling a save handler: \<open>_save_geometry\<close> is the method above, the others belong to
  other modules and raise what the environment says. The call is recorded.
\<close>

definition call_handler :: "env \<Rightarrow> save_handler \<Rightarrow> app \<Rightarrow> outcome \<times> app" where
  "call_handler e h a =
     (let a1 = a\<lparr>invoked := invoked a @ [h]\<rparr>
      in if h = Save_geometry then save_geometry e a1
         else (case save_raises e h of Some ex \<Rightarrow> (Raises ex, a1) | None \<Rightarrow> (Returns, a1)))"

text \<open>
  \<^verbatim>\<open>
  for what, handler in to_save:
      log.destroy.debug("Saving {} (handler: {})".format(what, handler.__qualname__))
      try:
          handler()
      except AttributeError as e:
          log.destroy.warning("Could not save {}.".format(what))
          log.destroy.debug(e)
  \<close>
\<close>

fun run_to_save :: "env \<Rightarrow> (string \<times> save_handler) list \<Rightarrow> app \<Rightarrow> outcome \<times> app" where
  "run_to_save e [] a = (Returns, a)"
| "run_to_save e ((what, handler) # rest) a =
     (case call_handler e handler (log_msg Debug (''Saving '' @ what @ '' (handler: {})'') a) of
        (Raises AttributeError, a1) \<Rightarrow>
          run_to_save e rest
            (log_msg Debug ''{}'' (log_msg Warning (''Could not save '' @ what @ ''.'') a1))
      | (Returns, a1) \<Rightarrow> run_to_save e rest a1
      | (out, a1) \<Rightarrow> (out, a1))"

text \<open>
  The list \<open>to_save\<close> of \<open>_shutdown\<close>, built when the configuration is registered:
  \<^verbatim>\<open>
  to_save = []
  if config.get('general', 'auto-save-config'):
      to_save.append(("config", config_obj.save))
      try:
          key_config = objreg.get('key-config')
      except KeyError:
          pass
      else:
          to_save.append(("keyconfig", key_config.save))
  to_save += [("window geometry", self._save_geometry),
              ("quickmarks", quickmarks.save)]
  try:
      command_history = objreg.get('command-history')
  except KeyError:
      pass
  else:
      to_save.append(("command history", command_history.save))
  try:
      state_config = objreg.get('state-config')
  except KeyError:
      pass
  else:
      to_save.append(("window geometry", state_config.save))
  try:
      cookie_jar = objreg.get('cookie-jar')
  except KeyError:
      pass
  else:
      to_save.append(("cookies", cookie_jar.save))
  \<close>
  \<open>objreg.get\<close> raises nothing but \<open>KeyError\<close>.
\<close>

definition to_save :: "config_object \<Rightarrow> objreg \<Rightarrow> (string \<times> save_handler) list" where
  "to_save config_obj reg =
     (if auto_save_config config_obj then
        [(''config'', Config_save)] @
        (case objreg_get reg_key_config reg of
           Inl ex \<Rightarrow> []
         | Inr key_config \<Rightarrow> [(''keyconfig'', KeyConfig_save)])
      else []) @
     [(''window geometry'', Save_geometry), (''quickmarks'', Quickmarks_save)] @
     (case objreg_get reg_command_history reg of
        Inl ex \<Rightarrow> []
      | Inr command_history \<Rightarrow> [(''command history'', CommandHistory_save)]) @
     (case objreg_get reg_state_config reg of
        Inl ex \<Rightarrow> []
      | Inr state_config \<Rightarrow> [(''window geometry'', StateConfig_save)]) @
     (case objreg_get reg_cookie_jar reg of
        Inl ex \<Rightarrow> []
      | Inr cookie_jar \<Rightarrow> [(''cookies'', CookieJar_save)])"

text \<open>
  The first steps of \<open>_shutdown\<close>, each a \<open>try\<close> that passes on \<open>KeyError\<close>:
  \<^verbatim>\<open>
  try:
      log.destroy.debug("Removing eventfilter...")
      self.removeEventFilter(objreg.get('mode-manager'))
  except KeyError:
      pass
  try:
      log.destroy.debug("Closing tabs...")
      objreg.get('tabbed-browser').shutdown()
  except KeyError:
      pass
  \<close>
\<close>

definition remove_eventfilter :: "app \<Rightarrow> outcome \<times> app" where
  "remove_eventfilter a =
     (let a1 = log_msg Debug ''Removing eventfilter...'' a
      in case objreg_get reg_mode_manager (registry a1) of
           Inl KeyError \<Rightarrow> (Returns, a1)
         | Inl ex \<Rightarrow> (Raises ex, a1)
         | Inr mode_manager \<Rightarrow> (Returns, a1\<lparr>event_filter := False\<rparr>))"

definition close_tabs :: "app \<Rightarrow> outcome \<times> app" where
  "close_tabs a =
     (let a1 = log_msg Debug ''Closing tabs...'' a
      in case objreg_get reg_tabbed_browser (registry a1) of
           Inl KeyError \<Rightarrow> (Returns, a1)
         | Inl ex \<Rightarrow> (Raises ex, a1)
         | Inr tabbed_browser \<Rightarrow> (Returns, a1\<lparr>tabs_shut_down := True\<rparr>))"

text \<open>
  \<^verbatim>\<open>
  try:
      config_obj = objreg.get('config')
  except KeyError:
      log.destroy.debug("Config not initialized yet, so not saving anything.")
  else:
      to_save = ...
      for what, handler in to_save: ...
  \<close>
\<close>

definition save_everything :: "env \<Rightarrow> app \<Rightarrow> outcome \<times> app" where
  "save_everything e a =
     (case objreg_get reg_config (registry a) of
        Inl KeyError \<Rightarrow>
          (Returns, log_msg Debug ''Config not initialized yet, so not saving anything.'' a)
      | Inl ex \<Rightarrow> (Raises ex, a)
      | Inr config_obj \<Rightarrow> run_to_save e (to_save config_obj (registry a)) a)"

text \<open>
  \<open>_shutdown(status)\<close>, the second stage of shutdown:
  \<^verbatim>\<open>
  log.destroy.debug("Stage 2 of shutting down...")
  if self._args.debug_exit:
      print("Now logging shutdown.", file=sys.stderr)
      ...
  # Remove eventfilter ... # Close all tabs ... # Save everything ...
  log.destroy.debug("Deactiving crash log...")
  self._destroy_crashlogfile()
  log.destroy.debug("Deactiving message handler...")
  qInstallMessageHandler(None)
  log.destroy.debug("Cleaning up object registry...")
  objreg.clear()
  log.destroy.debug("Deferring QApplication::exit...")
  QTimer.singleShot(0, functools.partial(self.exit, status))
  \<close>
\<close>

definition shutdown_stage2 :: "env \<Rightarrow> int \<Rightarrow> app \<Rightarrow> outcome \<times> app" where
  "shutdown_stage2 e status a =
     (let a1 = log_msg Debug ''Stage 2 of shutting down...'' a;
          a2 = (if debug_exit e then a1\<lparr>printed := printed a1 @ [''Now logging shutdown.'']\<rparr>
                else a1)
      in and_then (remove_eventfilter a2) (\<lambda>a3.
         and_then (close_tabs a3) (\<lambda>a4.
         and_then (save_everything e a4) (\<lambda>a5.
         and_then (destroy_crashlogfile e (log_msg Debug ''Deactiving crash log...'' a5)) (\<lambda>a6.
           (Returns,
            (log_msg Debug ''Deferring QApplication::exit...''
               ((log_msg Debug ''Cleaning up object registry...''
                   ((log_msg Debug ''Deactiving message handler...'' a6)
                      \<lparr>message_handler := False\<rparr>))
                  \<lparr>registry := objreg_clear\<rparr>))
              \<lparr>pending := pending a6 @ [Cb_exit status]\<rparr>))))))"

text \<open>
  Modelled from the spec: \<open>Prompter.shutdown\<close> is not in the source files at hand. It
  tells whether a modal question prompt was active, and quits it.
\<close>

definition prompter_shutdown :: "prompter_obj \<Rightarrow> bool \<times> prompter_obj" where
  "prompter_shutdown p = (question_active p, p\<lparr>question_active := False\<rparr>)"

text \<open>
  \<^verbatim>\<open>
  def shutdown(self, status=0):
      if self._shutting_down:
          return
      self._shutting_down = True
      log.destroy.debug("Shutting down with status {}...".format(status))
      prompter = objreg.get('prompter', None)
      if prompter is not None and prompter.shutdown():
          log.destroy.debug("Deferring real shutdown because question was active.")
          QTimer.singleShot(0, functools.partial(self._shutdown, status))
      else:
          self._shutdown(status)
  \<close>
\<close>

definition shutdown :: "env \<Rightarrow> int \<Rightarrow> app \<Rightarrow> outcome \<times> app" where
  "shutdown e status a =
     (if shutting_down a then (Returns, a)
      else
        (let a1 = log_msg Debug ''Shutting down with status {}...'' (a\<lparr>shutting_down := True\<rparr>)
         in case reg_prompter (registry a1) of
              None \<Rightarrow> shutdown_stage2 e status a1
            | Some prompter \<Rightarrow>
                (let (active, prompter1) = prompter_shutdown prompter;
                     a2 = a1\<lparr>registry := (registry a1)\<lparr>reg_prompter := Some prompter1\<rparr>\<rparr>
                 in if active then
                      (Returns,
                       (log_msg Debug ''Deferring real shutdown because question was active.'' a2)
                         \<lparr>pending := pending a2 @ [Cb_stage2 status]\<rparr>)
                    else shutdown_stage2 e status a2)))"

text \<open>
  \<^verbatim>\<open>
  def exit(self, status):
      log.destroy.debug("Now calling QApplication::exit.")
      super().exit(status)
  \<close>
\<close>

definition app_exit :: "int \<Rightarrow> app \<Rightarrow> app" where
  "app_exit status a =
     (log_msg Debug ''Now calling QApplication::exit.'' a)\<lparr>exit_status := Some status\<rparr>"

section \<open>app.py: signals\<close>

text \<open>
  \<^verbatim>\<open>
  def interrupt(self, signum, _frame):
      log.destroy.info("SIGINT/SIGTERM received, shutting down!")
      log.destroy.info("Do the same again to forcefully quit.")
      signal.signal(signal.SIGINT, self.interrupt_forcefully)
      signal.signal(signal.SIGTERM, self.interrupt_forcefully)
      QTimer.singleShot(0, functools.partial(self.shutdown, 128 + signum))
  \<close>
\<close>

definition interrupt :: "int \<Rightarrow> app \<Rightarrow> outcome \<times> app" where
  "interrupt signo a =
     (Returns,
      (log_msg Info ''Do the same again to forcefully quit.''
         (log_msg Info ''SIGINT/SIGTERM received, shutting down!'' a))
        \<lparr>sigint_handler := H_interrupt_forcefully,
         sigterm_handler := H_interrupt_forcefully,
         pending := pending a @ [Cb_shutdown (128 + signo)]\<rparr>)"

text \<open>
  \<^verbatim>\<open>
  def interrupt_forcefully(self, signum, _frame):
      log.destroy.info("Forceful quit requested, goodbye cruel world!")
      log.destroy.info("Do the same again to quit with even more force.")
      signal.signal(signal.SIGINT, self.interrupt_really_forcefully)
      signal.signal(signal.SIGTERM, self.interrupt_really_forcefully)
      QTimer.singleShot(0, functools.partial(self.exit, 128 + signum))
  \<close>
\<close>

definition interrupt_forcefully :: "int \<Rightarrow> app \<Rightarrow> outcome \<times> app" where
  "interrupt_forcefully signo a =
     (Returns,
      (log_msg Info ''Do the same again to quit with even more force.''
         (log_msg Info ''Forceful quit requested, goodbye cruel world!'' a))
        \<lparr>sigint_handler := H_interrupt_really_forcefully,
         sigterm_handler := H_interrupt_really_forcefully,
         pending := pending a @ [Cb_exit (128 + signo)]\<rparr>)"

text \<open>
  \<^verbatim>\<open>
  def interrupt_really_forcefully(self, signum, _frame):
      log.destroy.info("WHY ARE YOU DOING THIS TO ME? :(")
      sys.exit(128 + signum)
  \<close>
\<close>

definition interrupt_really_forcefully :: "int \<Rightarrow> app \<Rightarrow> outcome \<times> app" where
  "interrupt_really_forcefully signo a =
     (SystemExit (128 + signo), log_msg Info ''WHY ARE YOU DOING THIS TO ME? :('' a)"

text \<open>Delivery of a signal: the handler installed for it is called with its number.\<close>

definition installed_handler :: "signal \<Rightarrow> app \<Rightarrow> sig_handler" where
  "installed_handler sig a = (case sig of SIGINT \<Rightarrow> sigint_handler a | SIGTERM \<Rightarrow> sigterm_handler a)"

definition deliver :: "signal \<Rightarrow> app \<Rightarrow> outcome \<times> app" where
  "deliver sig a =
     (case installed_handler sig a of
        H_interrupt \<Rightarrow> interrupt (signum sig) a
      | H_interrupt_forcefully \<Rightarrow> interrupt_forcefully (signum sig) a
      | H_interrupt_really_forcefully \<Rightarrow> interrupt_really_forcefully (signum sig) a)"

section \<open>app.py: the run loop\<close>

text \<open>Running a queued callback, and one iteration of the run loop: the oldest one runs.\<close>

definition run_callback :: "env \<Rightarrow> callback \<Rightarrow> app \<Rightarrow> outcome \<times> app" where
  "run_callback e cb a =
     (case cb of
        Cb_shutdown status \<Rightarrow> shutdown e status a
      | Cb_stage2 status \<Rightarrow> shutdown_stage2 e status a
      | Cb_exit status \<Rightarrow> (Returns, app_exit status a))"

definition tick :: "env \<Rightarrow> app \<Rightarrow> outcome \<times> app" where
  "tick e a =
     (case pending a of
        [] \<Rightarrow> (Returns, a)
      | cb # rest \<Rightarrow> run_callback e cb (a\<lparr>pending := rest\<rparr>))"

text \<open>
  What can happen to a running application: a call of \<open>shutdown\<close> (a signal connected to
  it, or a command), the delivery of SIGINT or SIGTERM, an iteration of the run loop.
  After \<open>sys.exit\<close> the process is gone and nothing more happens; an exception that
  leaves a callback ends the callback only.
\<close>

datatype event = Ev_shutdown int | Ev_signal signal | Ev_tick

definition step :: "env \<Rightarrow> event \<Rightarrow> app \<Rightarrow> outcome \<times> app" where
  "step e ev a =
     (case ev of
        Ev_shutdown status \<Rightarrow> shutdown e status a
      | Ev_signal sig \<Rightarrow> deliver sig a
      | Ev_tick \<Rightarrow> tick e a)"

fun run :: "env \<Rightarrow> event list \<Rightarrow> app \<Rightarrow> app" where
  "run e [] a = a"
| "run e (ev # evs) a =
     (case step e ev a of
        (SystemExit code, a1) \<Rightarrow> a1
      | (out, a1) \<Rightarrow> run e evs a1)"

text \<open>The executions of \<open>_shutdown\<close> so far: each one starts with its log line.\<close>

definition stage2_runs :: "app \<Rightarrow> nat" where
  "stage2_runs a = count_list (logged a) (Debug, ''Stage 2 of shutting down...'')"

section \<open>app.py: restart and the exception hook\<close>

text \<open>
  The loop of \<open>restart\<close> over the tabs, when no pages are passed in. A tab is what
  \<open>tab.cur_url.toString(QUrl.RemovePassword | QUrl.FullyEncoded)\<close> gives or raises;
  nothing is caught here.
  \<^verbatim>\<open>
  pages = []
  for tab in objreg.get('tabbed-browser').widgets():
      urlstr = tab.cur_url.toString(QUrl.RemovePassword | QUrl.FullyEncoded)
      if urlstr:
          pages.append(urlstr)
  \<close>
\<close>

fun current_pages :: "(exc + string) list \<Rightarrow> exc + string list" where
  "current_pages [] = Inr []"
| "current_pages (Inl ex # tabs) = Inl ex"
| "current_pages (Inr urlstr # tabs) =
     (case current_pages tabs of
        Inl ex \<Rightarrow> Inl ex
      | Inr pages \<Rightarrow> Inr (if urlstr \<noteq> [] then urlstr # pages else pages))"

text \<open>
  The command line and the working directory of the new process:
  \<^verbatim>\<open>
  if os.path.basename(sys.argv[0]) == 'qutebrowser':
      args = [sys.argv[0]]
      cwd = None
  elif hasattr(sys, 'frozen'):
      args = [sys.executable]
      cwd = os.path.abspath(os.path.dirname(sys.executable))
  else:
      args = [sys.executable, '-m', 'qutebrowser']
      cwd = os.path.join(os.path.abspath(os.path.dirname(qutebrowser.__file__)), '..')
  for arg in sys.argv[1:]:
      if arg.startswith('-'):
          args.append(arg)
  args += pages
  \<close>
  \<open>sys.argv[0]\<close> raises \<open>IndexError\<close> on an empty \<open>sys.argv\<close>.
\<close>

definition relaunch_command :: "env \<Rightarrow> string list \<Rightarrow> exc + (string list \<times> string option)" where
  "relaunch_command e pages =
     (case argv e of
        [] \<Rightarrow> Inl IndexError
      | argv0 # rest \<Rightarrow>
          (let (args, cwd) =
                 (if basename argv0 = ''qutebrowser'' then ([argv0], None)
                  else if frozen e then
                    ([executable e], Some (abspath e (dirname (executable e))))
                  else
                    ([executable e, ''-m'', ''qutebrowser''],
                     Some (path_join (abspath e (dirname (package_file e))) ''..'')))
           in Inr (args @ filter startswith_dash rest @ pages, cwd)))"

text \<open>
  \<^verbatim>\<open>
  def restart(self, shutdown=True, pages=None):
      if pages is None:
          pages = ...
      log.destroy.debug("sys.executable: {}".format(sys.executable))
      log.destroy.debug("sys.path: {}".format(sys.path))
      log.destroy.debug("sys.argv: {}".format(sys.argv))
      log.destroy.debug("frozen: {}".format(hasattr(sys, 'frozen')))
      ...
      log.destroy.debug("args: {}".format(args))
      log.destroy.debug("cwd: {}".format(cwd))
      if cwd is None:
          subprocess.Popen(args)
      else:
          subprocess.Popen(args, cwd=cwd)
      if shutdown:
          self.shutdown()
  \<close>
  \<open>subprocess.Popen\<close> is taken to succeed; the process it starts is recorded.
\<close>

definition restart :: "env \<Rightarrow> bool \<Rightarrow> string list option \<Rightarrow> app \<Rightarrow> outcome \<times> app" where
  "restart e do_shutdown pages a =
     (case (case pages of
              Some ps \<Rightarrow> Inr ps
            | None \<Rightarrow>
                (case objreg_get reg_tabbed_browser (registry a) of
                   Inl ex \<Rightarrow> Inl ex
                 | Inr tabbed_browser \<Rightarrow> current_pages (tab_urls tabbed_browser)))
      of
        Inl ex \<Rightarrow> (Raises ex, a)
      | Inr ps \<Rightarrow>
          (let a1 = log_msg Debug ''frozen: {}''
                      (log_msg Debug ''sys.argv: {}''
                         (log_msg Debug ''sys.path: {}''
                            (log_msg Debug (''sys.executable: '' @ executable e) a)))
           in case relaunch_command e ps of
                Inl ex \<Rightarrow> (Raises ex, a1)
              | Inr (args, cwd) \<Rightarrow>
                  (let a2 = (log_msg Debug ''cwd: {}'' (log_msg Debug ''args: {}'' a1))
                              \<lparr>spawned := spawned a1 @ [(args, cwd)]\<rparr>
                   in if do_shutdown then shutdown e 0 a2 else (Returns, a2))))"

text \<open>
  \<^verbatim>\<open>
  def _recover_pages(self):
      try:
          tabbed_browser = objreg.get('tabbed-browser')
      except KeyError:
          return []
      pages = []
      for tab in tabbed_browser.widgets():
          try:
              url = tab.cur_url.toString(QUrl.RemovePassword | QUrl.FullyEncoded)
              if url:
                  pages.append(url)
          except Exception:
              log.destroy.exception("Error while recovering tab")
      return pages
  \<close>
\<close>

fun recover_tabs :: "(exc + string) list \<Rightarrow> app \<Rightarrow> string list \<times> app" where
  "recover_tabs [] a = ([], a)"
| "recover_tabs (Inl ex # tabs) a =
     recover_tabs tabs (log_msg Exception ''Error while recovering tab'' a)"
| "recover_tabs (Inr url # tabs) a =
     (let (pages, a1) = recover_tabs tabs a
      in (if url \<noteq> [] then url # pages else pages, a1))"

definition recover_pages :: "app \<Rightarrow> (exc + string list) \<times> app" where
  "recover_pages a =
     (case objreg_get reg_tabbed_browser (registry a) of
        Inl KeyError \<Rightarrow> (Inr [], a)
      | Inl ex \<Rightarrow> (Inl ex, a)
      | Inr tabbed_browser \<Rightarrow>
          (let (pages, a1) = recover_tabs (tab_urls tabbed_browser) a in (Inr pages, a1)))"

text \<open>
  The class of an uncaught exception, as far as the hook tells classes apart:
  \<open>bdb.BdbQuit\<close>, a class that is not a subclass of \<open>Exception\<close> (\<open>KeyboardInterrupt\<close>,
  \<open>SystemExit\<close>), or any other subclass of \<open>Exception\<close>.
\<close>

datatype exctype = BdbQuit | Not_an_Exception | Other_Exception

fun issubclass_Exception :: "exctype \<Rightarrow> bool" where
  "issubclass_Exception BdbQuit = True"
| "issubclass_Exception Not_an_Exception = False"
| "issubclass_Exception Other_Exception = True"

text \<open>
  The three best-effort steps of the hook, each \<open>try ... except Exception\<close>:
  \<^verbatim>\<open>
  try:
      pages = self._recover_pages()
  except Exception:
      log.destroy.exception("Error while recovering pages")
      pages = []
  try:
      history = objreg.get('status-command').history[-5:]
  except Exception:
      log.destroy.exception("Error while getting history: {}")
      history = []
  try:
      objects = self.get_all_objects()
  except Exception:
      log.destroy.exception("Error while getting objects")
      objects = ""
  \<close>
\<close>

definition hook_pages :: "app \<Rightarrow> string list \<times> app" where
  "hook_pages a =
     (case recover_pages a of
        (Inl ex, a1) \<Rightarrow> ([], log_msg Exception ''Error while recovering pages'' a1)
      | (Inr pages, a1) \<Rightarrow> (pages, a1))"

definition hook_history :: "app \<Rightarrow> string list \<times> app" where
  "hook_history a =
     (case objreg_get reg_status_command (registry a) of
        Inl ex \<Rightarrow> ([], log_msg Exception ''Error while getting history: {}'' a)
      | Inr status_command \<Rightarrow>
          (drop (length (history status_command) - 5) (history status_command), a))"

definition hook_objects :: "env \<Rightarrow> app \<Rightarrow> string \<times> app" where
  "hook_objects e a =
     (case all_objects e of
        Inl ex \<Rightarrow> ([], log_msg Exception ''Error while getting objects'' a)
      | Inr objects \<Rightarrow> (objects, a))"

text \<open>
  \<^verbatim>\<open>
  try:
      self.lastWindowClosed.disconnect(self.shutdown)
  except TypeError:
      log.destroy.exception("Error while preventing shutdown")
  \<close>
  Disconnecting a slot that is not connected raises \<open>TypeError\<close>.
\<close>

definition prevent_shutdown :: "app \<Rightarrow> app" where
  "prevent_shutdown a =
     (if lastWindowClosed_connected a then a\<lparr>lastWindowClosed_connected := False\<rparr>
      else log_msg Exception ''Error while preventing shutdown'' a)"

text \<open>
  \<^verbatim>\<open>
  def _exception_hook(self, exctype, excvalue, tb):
      if exctype is bdb.BdbQuit or not issubclass(exctype, Exception):
          try:
              self.shutdown()
              return
          except Exception:
              log.init.exception("Error while shutting down")
              self.quit()
              return
      exc = (exctype, excvalue, tb)
      sys.__excepthook__(*exc)
      self._quit_status['crash'] = False
      ... pages, history, objects, disconnect ...
      QApplication.closeAllWindows()
      self._crashdlg = crash.ExceptionCrashDialog(pages, history, exc, objects)
      ret = self._crashdlg.exec_()
      if ret == QDialog.Accepted:  # restore
          self.restart(shutdown=False, pages=pages)
      qInstallMessageHandler(None)
      self._destroy_crashlogfile()
      sys.exit(1)
  \<close>
  \<open>self.quit()\<close> is \<open>QCoreApplication::quit\<close>, an exit of the run loop with status 0.
\<close>

definition exception_hook :: "env \<Rightarrow> exctype \<Rightarrow> app \<Rightarrow> outcome \<times> app" where
  "exception_hook e exctype a =
     (if exctype = BdbQuit \<or> \<not> issubclass_Exception exctype then
        (case shutdown e 0 a of
           (Raises ex, a1) \<Rightarrow>
             (Returns, (log_msg Exception ''Error while shutting down'' a1)\<lparr>exit_status := Some 0\<rparr>)
         | (out, a1) \<Rightarrow> (out, a1))
      else
        (let a1 = a\<lparr>printed := printed a @ [''Traceback (most recent call last):''],
                     quit_status_crash := False\<rparr>;
             (pages, a2) = hook_pages a1;
             (hist, a3) = hook_history a2;
             (objects, a4) = hook_objects e a3;
             a5 = (prevent_shutdown a4)\<lparr>windows_closed := True\<rparr>;
             dlg = ExceptionCrashDialog pages hist objects;
             a6 = a5\<lparr>crashdlg := Some dlg, dialogs_shown := dialogs_shown a5 @ [dlg]\<rparr>
         in and_then (if dialog_result e = Accepted then restart e False (Some pages) a6
                      else (Returns, a6)) (\<lambda>a7.
            and_then (destroy_crashlogfile e (a7\<lparr>message_handler := False\<rparr>)) (\<lambda>a8.
              (SystemExit 1, a8)))))"

section \<open>Example inputs for the application\<close>

text \<open>
  A registry with every object registered and two tabs open, an installed launcher
  script started with one option, and the application after its start, with the crash
  log open. The other examples below change one thing of these.
\<close>

definition example_registry :: objreg where
  "example_registry =
     \<lparr> reg_prompter = Some \<lparr>question_active = False\<rparr>,
       reg_mode_manager = Some (),
       reg_tabbed_browser = Some \<lparr>tab_urls = [Inr ''https://x'', Inr ''https://y'']\<rparr>,
       reg_config = Some \<lparr>auto_save_config = True\<rparr>,
       reg_key_config = Some (),
       reg_command_history = Some (),
       reg_state_config = Some Map.empty,
       reg_cookie_jar = Some (),
       reg_main_window = Some \<lparr>saved_geometry = [1, 2, 3]\<rparr>,
       reg_download_manager = Some \<lparr>downloads = []\<rparr>,
       reg_status_command = Some \<lparr>history = ['':open x'']\<rparr> \<rparr>"

definition example_b64encode :: "bytes \<Rightarrow> string" where
  "example_b64encode data = (if data = [1, 2, 3] then ''AQID'' else ''AAAA'')"

definition all_saves_succeed :: "save_handler \<Rightarrow> exc option" where
  "all_saves_succeed h = None"

definition example_env :: env where
  "example_env =
     \<lparr> data_dir = ''/data'',
       read_permitted = True,
       remove_permitted = True,
       have_sigusr1 = True,
       stderr_present = True,
       debug_exit = False,
       argv = [''qutebrowser'', ''--debug''],
       executable = ''/usr/bin/python3'',
       frozen = False,
       package_file = ''/lib/qutebrowser/__init__.py'',
       abspath = id,
       b64encode = example_b64encode,
       save_raises = all_saves_succeed,
       all_objects = Inr ''objects'',
       dialog_result = Rejected \<rparr>"

definition example_app :: app where
  "example_app =
     \<lparr> shutting_down = False,
       quit_status_crash = True,
       crashdlg = None,
       crashlogfile = Some \<lparr>fname = ''/data/crash.log'', closed = False\<rparr>,
       registry = example_registry,
       sigint_handler = H_interrupt,
       sigterm_handler = H_interrupt,
       pending = [],
       files = Map.empty(''/data/crash.log'' \<mapsto> []),
       faulthandler = FH_file ''/data/crash.log'',
       faulthandler_sigusr1 = True,
       message_handler = True,
       event_filter = True,
       tabs_shut_down = False,
       lastWindowClosed_connected = True,
       windows_closed = False,
       dialogs_shown = [],
       spawned = [],
       invoked = [],
       exit_status = None,
       printed = [],
       logged = [] \<rparr>"

text \<open>
  The application during its start, before the crash log is looked at: no file object,
  \<open>faulthandler\<close> on the standard error stream, no files in the data directory.
\<close>

definition starting_app :: app where
  "starting_app =
     example_app\<lparr>crashlogfile := None, files := Map.empty, faulthandler := FH_stderr,
                 faulthandler_sigusr1 := False\<rparr>"

text \<open>
  The start after a crash (the crash log holds the fault's text), the start beside a
  running instance (the crash log is there and empty), and a data directory that does
  not let files be removed.
\<close>

definition crashed_app :: app where
  "crashed_app = starting_app\<lparr>files := Map.empty(''/data/crash.log'' \<mapsto> ''Fatal Python error'')\<rparr>"

definition stale_app :: app where
  "stale_app = starting_app\<lparr>files := Map.empty(''/data/crash.log'' \<mapsto> [])\<rparr>"

definition readonly_env :: env where
  "readonly_env = example_env\<lparr>remove_permitted := False\<rparr>"

text \<open>The start with a crash log that holds a byte above 127 (233, Latin-1 e acute).\<close>

definition garbled_app :: app where
  "garbled_app =
     starting_app\<lparr>files := Map.empty(''/data/crash.log'' \<mapsto> [Char True False False True False True True True])\<rparr>"

text \<open>
  Other ways the program was started: as a module of the interpreter with
  \<open>sys.argv = ["prog", "--debug"]\<close>; as a frozen executable with options, a page
  and a command on its command line; as a frozen executable \<open>prog\<close> with
  \<open>sys.argv = ["prog", "--debug"]\<close>.
\<close>

definition module_env :: env where
  "module_env = example_env\<lparr>argv := [''prog'', ''--debug'']\<rparr>"

definition frozen_env :: env where
  "frozen_env =
     example_env\<lparr>argv := [''/opt/qb/prog'', ''--debug'', ''https://old'', '':set'', ''-v''],
                 executable := ''/opt/qb/prog'', frozen := True\<rparr>"

definition frozen_prog_env :: env where
  "frozen_prog_env = example_env\<lparr>argv := [''prog'', ''--debug''], executable := ''prog'', frozen := True\<rparr>"

section \<open>Auxiliary definitions and further examples\<close>

text \<open>
  The queued callbacks that run \<open>_shutdown\<close>, and the state after the first lines of
  \<open>_shutdown\<close> (its log line and the output of \<open>--debug-exit\<close>).
\<close>

fun is_stage2 :: "callback \<Rightarrow> bool" where
  "is_stage2 (Cb_stage2 status) = True"
| "is_stage2 cb = False"

definition stage2_begin :: "env \<Rightarrow> app \<Rightarrow> app" where
  "stage2_begin e a =
     (if debug_exit e
      then (log_msg Debug ''Stage 2 of shutting down...'' a)
             \<lparr>printed := printed a @ [''Now logging shutdown.'']\<rparr>
      else log_msg Debug ''Stage 2 of shutting down...'' a)"

text \<open>
  An upper bound of the executions of \<open>_shutdown\<close> that a state can still reach: the
  ones that happened, the ones queued, and one more while the latch is not set.
\<close>

definition stage2_budget :: "app \<Rightarrow> nat" where
  "stage2_budget a =
     stage2_runs a + length (filter is_stage2 (pending a)) + (if shutting_down a then 0 else 1)"

text \<open>
  The application with the latch set, and the application while a modal question prompt
  is active.
\<close>

definition latched_app :: app where
  "latched_app = example_app\<lparr>shutting_down := True\<rparr>"

definition asking_app :: app where
  "asking_app =
     example_app\<lparr>registry := example_registry\<lparr>reg_prompter := Some \<lparr>question_active = True\<rparr>\<rparr>\<rparr>"

text \<open>
  The exception hook of a fault up to and including the crash dialog: the pages handed to
  the dialog (and to \<open>restart\<close>), and the state when the dialog returns.
\<close>

definition hook_before_dialog :: "env \<Rightarrow> app \<Rightarrow> string list \<times> app" where
  "hook_before_dialog e a =
     (let a1 = a\<lparr>printed := printed a @ [''Traceback (most recent call last):''],
                  quit_status_crash := False\<rparr>;
          (pages, a2) = hook_pages a1;
          (hist, a3) = hook_history a2;
          (objects, a4) = hook_objects e a3;
          a5 = (prevent_shutdown a4)\<lparr>windows_closed := True\<rparr>;
          dlg = ExceptionCrashDialog pages hist objects
      in (pages, a5\<lparr>crashdlg := Some dlg, dialogs_shown := dialogs_shown a5 @ [dlg]\<rparr>))"

text \<open>The user accepts the restore that the crash dialog offers.\<close>

definition accepting_env :: env where
  "accepting_env = example_env\<lparr>dialog_result := Accepted\<rparr>"

text \<open>
  The running application that found an empty crash log at its start: no file object,
  \<open>faulthandler\<close> on the standard error stream, the file of the other instance in place.
\<close>

definition stale_running_app :: app where
  "stale_running_app =
     example_app\<lparr>crashlogfile := None, faulthandler := FH_stderr\<rparr>"

text \<open>The warnings of a log.\<close>

definition warnings :: "log_entry list \<Rightarrow> log_entry list" where
  "warnings l = filter (\<lambda>(lvl, msg). lvl = Warning) l"

text \<open>
  The warnings that the save loop logs for a list of handlers when nothing but
  \<open>AttributeError\<close> is raised: one for each handler of another module that raises.
\<close>

definition save_warnings :: "env \<Rightarrow> (string \<times> save_handler) list \<Rightarrow> log_entry list" where
  "save_warnings e l =
     map (\<lambda>(what, h). (Warning, ''Could not save '' @ what @ ''.''))
       (filter (\<lambda>(what, h). h \<noteq> Save_geometry \<and> save_raises e h \<noteq> None) l)"

text \<open>
  Outcomes of the save handlers: saving the cookies raises \<open>AttributeError\<close>; saving
  the cookies raises \<open>OSError\<close>; saving the configuration raises \<open>OSError\<close>.
\<close>

definition cookies_AttributeError :: "save_handler \<Rightarrow> exc option" where
  "cookies_AttributeError h = (if h = CookieJar_save then Some AttributeError else None)"

definition cookies_OSError :: "save_handler \<Rightarrow> exc option" where
  "cookies_OSError h = (if h = CookieJar_save then Some OSError else None)"

definition config_OSError :: "save_handler \<Rightarrow> exc option" where
  "config_OSError h = (if h = Config_save then Some OSError else None)"

text \<open>The example environment with each of these outcomes of the save handlers.\<close>

definition cookies_OSError_env :: env where
  "cookies_OSError_env = example_env\<lparr>save_raises := cookies_OSError\<rparr>"

definition cookies_AttributeError_env :: env where
  "cookies_AttributeError_env = example_env\<lparr>save_raises := cookies_AttributeError\<rparr>"

definition config_OSError_env :: env where
  "config_OSError_env = example_env\<lparr>save_raises := config_OSError\<rparr>"

section \<open>Properties of the download model\<close>

text \<open>
  C6. For every registry and every index without a parent (an invalid parent index, the
  default argument), \<open>rowCount\<close> returns the length of the download manager's list of
  downloads, and returns 0, raising nothing, when no download manager is registered.
\<close>

theorem rowCount_backing_length:
  assumes "\<not> isValid parent"
  shows "rowCount reg parent =
           Inr (case reg_download_manager reg of
                  None \<Rightarrow> 0
                | Some dm \<Rightarrow> length (downloads dm))"
  using assms by (simp add: rowCount_def objreg_get_def split: option.split)

theorem rowCount_backing_length_witness:
  "\<not> isValid \<lparr>isValid = False, row = -1, column = -1\<rparr> \<and>
   rowCount (objreg_clear\<lparr>reg_download_manager := Some \<lparr>downloads = [''a'', ''b'', ''c'']\<rparr>\<rparr>)
     \<lparr>isValid = False, row = -1, column = -1\<rparr> = Inr 3 \<and>
   rowCount objreg_clear \<lparr>isValid = False, row = -1, column = -1\<rparr> = Inr 0"
  using rowCount_backing_length
          [of "\<lparr>isValid = False, row = -1, column = -1\<rparr>"
              "objreg_clear\<lparr>reg_download_manager := Some \<lparr>downloads = [''a'', ''b'', ''c'']\<rparr>\<rparr>"]
        rowCount_backing_length
          [of "\<lparr>isValid = False, row = -1, column = -1\<rparr>" objreg_clear]
  by (simp add: objreg_clear_def)

text \<open>
  C10. For every index, \<open>flags\<close> is exactly \<open>Qt.ItemIsEnabled\<close>: the selectable flag of
  the default is left out, and so is the editable one.
\<close>

theorem flags_only_enabled:
  "flags index = {ItemIsEnabled} \<and> ItemIsSelectable \<notin> flags index \<and>
   ItemIsEditable \<notin> flags index"
  by (simp add: flags_def)

section \<open>Properties of the main window's constructor\<close>

text \<open>
  C7 (as amended). With the state configuration registered, the constructor ends with this
  geometry and raises nothing: when the stored entry is absent, the default rectangle
  (50, 50, 800, 600), and nothing is logged about it (first start); when the entry is not
  valid base64 (\<open>binascii.Error\<close>), the default rectangle, with the exception logged;
  when \<open>restoreGeometry\<close> returns \<open>False\<close>, the default rectangle, with a warning
  logged; when it returns \<open>True\<close>, the restored geometry.
\<close>

theorem MainWindow_init_geometry:
  assumes "reg_state_config reg = Some sc"
  shows "(state_config_item sc ''geometry'' ''mainwindow'' = Inl KeyError \<longrightarrow>
            MainWindow_init b64decode restoreGeometry reg w =
              (None, w\<lparr>geometry := default_rect,
                       init_log := init_log w @ [(Debug, ''Initial mainwindow geometry: {}'')]\<rparr>))
       \<and> (\<forall>data. state_config_item sc ''geometry'' ''mainwindow'' = Inr data \<and>
                   b64decode data = Inl BinasciiError \<longrightarrow>
            MainWindow_init b64decode restoreGeometry reg w =
              (None, w\<lparr>geometry := default_rect,
                       init_log := init_log w @
                         [(Debug, ''Restoring mainwindow from '' @ data),
                          (Exception, ''Error while reading geometry''),
                          (Debug, ''Initial mainwindow geometry: {}'')]\<rparr>))
       \<and> (\<forall>data geom. state_config_item sc ''geometry'' ''mainwindow'' = Inr data \<and>
                   b64decode data = Inr geom \<and> restoreGeometry geom = Inr None \<longrightarrow>
            MainWindow_init b64decode restoreGeometry reg w =
              (None, w\<lparr>geometry := default_rect,
                       init_log := init_log w @
                         [(Debug, ''Restoring mainwindow from '' @ data),
                          (Warning, ''Error while restoring geometry.''),
                          (Debug, ''Initial mainwindow geometry: {}'')]\<rparr>))
       \<and> (\<forall>data geom r. state_config_item sc ''geometry'' ''mainwindow'' = Inr data \<and>
                   b64decode data = Inr geom \<and> restoreGeometry geom = Inr (Some r) \<longrightarrow>
            MainWindow_init b64decode restoreGeometry reg w =
              (None, w\<lparr>geometry := r,
                       init_log := init_log w @
                         [(Debug, ''Restoring mainwindow from '' @ data),
                          (Debug, ''Initial mainwindow geometry: {}'')]\<rparr>))"
  using assms
  by (simp add: MainWindow_init_def objreg_get_def geometry_except_def log_init_def
        set_default_geometry_def default_rect_def)

theorem MainWindow_init_geometry_witness:
  "MainWindow_init example_b64decode example_restoreGeometry
      (objreg_clear\<lparr>reg_state_config := Some Map.empty\<rparr>) example_window =
     (None, \<lparr>geometry = default_rect,
             init_log = [(Debug, ''Initial mainwindow geometry: {}'')]\<rparr>)
   \<and> MainWindow_init example_b64decode example_restoreGeometry
      (objreg_clear\<lparr>reg_state_config := Some (example_state_config ''!!'')\<rparr>) example_window =
     (None, \<lparr>geometry = default_rect,
             init_log = [(Debug, ''Restoring mainwindow from !!''),
                         (Exception, ''Error while reading geometry''),
                         (Debug, ''Initial mainwindow geometry: {}'')]\<rparr>)
   \<and> MainWindow_init example_b64decode example_restoreGeometry
      (objreg_clear\<lparr>reg_state_config := Some (example_state_config ''AAAA'')\<rparr>) example_window =
     (None, \<lparr>geometry = default_rect,
             init_log = [(Debug, ''Restoring mainwindow from AAAA''),
                         (Warning, ''Error while restoring geometry.''),
                         (Debug, ''Initial mainwindow geometry: {}'')]\<rparr>)
   \<and> MainWindow_init example_b64decode example_restoreGeometry
      (objreg_clear\<lparr>reg_state_config := Some (example_state_config ''AQID'')\<rparr>) example_window =
     (None, \<lparr>geometry = \<lparr>rect_x = 0, rect_y = 0, rect_width = 1024, rect_height = 768\<rparr>,
             init_log = [(Debug, ''Restoring mainwindow from AQID''),
                         (Debug, ''Initial mainwindow geometry: {}'')]\<rparr>)"
proof -
  have absent: "state_config_item Map.empty ''geometry'' ''mainwindow'' = Inl KeyError"
    by (simp add: state_config_item_def)
  have present: "state_config_item (example_state_config d) ''geometry'' ''mainwindow'' = Inr d" for d
    by (simp add: state_config_item_def example_state_config_def)
  have d1: "example_b64decode ''!!'' = Inl BinasciiError"
    and d2: "example_b64decode ''AAAA'' = Inr [0, 0, 0]"
    and d3: "example_b64decode ''AQID'' = Inr [1, 2, 3]"
    by (simp_all add: example_b64decode_def)
  have r2: "example_restoreGeometry [0, 0, 0] = Inr None"
    and r3: "example_restoreGeometry [1, 2, 3] =
               Inr (Some \<lparr>rect_x = 0, rect_y = 0, rect_width = 1024, rect_height = 768\<rparr>)"
    by (simp_all add: example_restoreGeometry_def)
  note inst = MainWindow_init_geometry [where b64decode = example_b64decode
      and restoreGeometry = example_restoreGeometry and w = example_window]
  have a: "reg_state_config (objreg_clear\<lparr>reg_state_config := Some s\<rparr>) = Some s" for s
    by simp
  show ?thesis
    using inst [OF a [of Map.empty]] inst [OF a [of "example_state_config ''!!''"]]
      inst [OF a [of "example_state_config ''AAAA''"]]
      inst [OF a [of "example_state_config ''AQID''"]]
      absent present d1 d2 d3 r2 r3
    by (simp add: example_window_def)
qed

text \<open>
  C7 as stated asks for the cause to be logged in each fallback. With no stored entry
  the constructor logs no warning and no exception.
\<close>

theorem MainWindow_init_absent_counterexample:
  "state_config_item Map.empty ''geometry'' ''mainwindow'' = Inl KeyError \<and>
   failures_logged (init_log (snd (MainWindow_init example_b64decode example_restoreGeometry
      (objreg_clear\<lparr>reg_state_config := Some Map.empty\<rparr>) example_window))) = []"
  by (simp add: MainWindow_init_def objreg_get_def geometry_except_def log_init_def
        set_default_geometry_def state_config_item_def failures_logged_def example_window_def)

text \<open>
  Two cases that the theorem above leaves out. When \<open>restoreGeometry\<close> raises
  \<open>KeyError\<close>, the handler leaves \<open>ok\<close> unassigned and the constructor raises
  \<open>UnboundLocalError\<close>; and an exception of \<open>b64decode\<close> other than \<open>KeyError\<close>
  and \<open>binascii.Error\<close> (\<open>ValueError\<close> for a string with a non-ASCII character)
  leaves the constructor.
\<close>

lemma MainWindow_init_restore_KeyError:
  assumes "reg_state_config reg = Some sc"
    and "state_config_item sc ''geometry'' ''mainwindow'' = Inr data"
    and "b64decode data = Inr geom" and "restoreGeometry geom = Inl KeyError"
  shows "fst (MainWindow_init b64decode restoreGeometry reg w) = Some UnboundLocalError"
  using assms by (simp add: MainWindow_init_def objreg_get_def)

lemma MainWindow_init_decode_ValueError:
  assumes "reg_state_config reg = Some sc"
    and "state_config_item sc ''geometry'' ''mainwindow'' = Inr data"
    and "b64decode data = Inl ValueError"
  shows "fst (MainWindow_init b64decode restoreGeometry reg w) = Some ValueError"
  using assms by (simp add: MainWindow_init_def objreg_get_def geometry_except_def)

section \<open>What the steps of shutdown leave unchanged\<close>

lemma snd_and_then:
  "snd (and_then r f) = (if fst r = Returns then snd (f (snd r)) else snd r)"
  by (cases r; cases "fst r") (auto simp add: and_then_def)

lemma fst_and_then:
  "fst (and_then r f) = (if fst r = Returns then fst (f (snd r)) else fst r)"
  by (cases r; cases "fst r") (auto simp add: and_then_def)

lemma stage2_runs_log_msg:
  "stage2_runs (log_msg lvl msg a) =
     stage2_runs a + (if (lvl, msg) = (Debug, ''Stage 2 of shutting down...'') then 1 else 0)"
  by (simp add: stage2_runs_def log_msg_def)

lemma stage2_runs_update [simp]:
  "stage2_runs (a\<lparr>message_handler := m\<rparr>) = stage2_runs a"
  "stage2_runs (a\<lparr>registry := r\<rparr>) = stage2_runs a"
  "stage2_runs (a\<lparr>pending := p\<rparr>) = stage2_runs a"
  "stage2_runs (a\<lparr>shutting_down := b\<rparr>) = stage2_runs a"
  "stage2_runs (a\<lparr>exit_status := x\<rparr>) = stage2_runs a"
  "stage2_runs (a\<lparr>sigint_handler := h\<rparr>) = stage2_runs a"
  "stage2_runs (a\<lparr>sigterm_handler := h\<rparr>) = stage2_runs a"
  by (simp_all add: stage2_runs_def)

lemma log_msg_keeps [simp]:
  "files (log_msg lvl msg a) = files a"
  "crashlogfile (log_msg lvl msg a) = crashlogfile a"
  "faulthandler (log_msg lvl msg a) = faulthandler a"
  "shutting_down (log_msg lvl msg a) = shutting_down a"
  "pending (log_msg lvl msg a) = pending a"
  "registry (log_msg lvl msg a) = registry a"
  "invoked (log_msg lvl msg a) = invoked a"
  "spawned (log_msg lvl msg a) = spawned a"
  "message_handler (log_msg lvl msg a) = message_handler a"
  "exit_status (log_msg lvl msg a) = exit_status a"
  by (simp_all add: log_msg_def)

lemma remove_eventfilter_keeps [simp]:
  "files (snd (remove_eventfilter a)) = files a"
  "crashlogfile (snd (remove_eventfilter a)) = crashlogfile a"
  "faulthandler (snd (remove_eventfilter a)) = faulthandler a"
  "shutting_down (snd (remove_eventfilter a)) = shutting_down a"
  "pending (snd (remove_eventfilter a)) = pending a"
  "registry (snd (remove_eventfilter a)) = registry a"
  "invoked (snd (remove_eventfilter a)) = invoked a"
  "stage2_runs (snd (remove_eventfilter a)) = stage2_runs a"
  "fst (remove_eventfilter a) = Returns"
  by (simp_all add: remove_eventfilter_def objreg_get_def stage2_runs_def log_msg_def
        split: option.split)

lemma close_tabs_keeps [simp]:
  "files (snd (close_tabs a)) = files a"
  "crashlogfile (snd (close_tabs a)) = crashlogfile a"
  "faulthandler (snd (close_tabs a)) = faulthandler a"
  "shutting_down (snd (close_tabs a)) = shutting_down a"
  "pending (snd (close_tabs a)) = pending a"
  "registry (snd (close_tabs a)) = registry a"
  "invoked (snd (close_tabs a)) = invoked a"
  "stage2_runs (snd (close_tabs a)) = stage2_runs a"
  "fst (close_tabs a) = Returns"
  by (simp_all add: close_tabs_def objreg_get_def stage2_runs_def log_msg_def
        split: option.split)

lemma save_geometry_keeps [simp]:
  "files (snd (save_geometry e a)) = files a"
  "crashlogfile (snd (save_geometry e a)) = crashlogfile a"
  "faulthandler (snd (save_geometry e a)) = faulthandler a"
  "shutting_down (snd (save_geometry e a)) = shutting_down a"
  "pending (snd (save_geometry e a)) = pending a"
  "invoked (snd (save_geometry e a)) = invoked a"
  "stage2_runs (snd (save_geometry e a)) = stage2_runs a"
  by (simp_all add: save_geometry_def objreg_get_def stage2_runs_def Let_def split: option.split)

lemma call_handler_keeps [simp]:
  "files (snd (call_handler e h a)) = files a"
  "crashlogfile (snd (call_handler e h a)) = crashlogfile a"
  "faulthandler (snd (call_handler e h a)) = faulthandler a"
  "shutting_down (snd (call_handler e h a)) = shutting_down a"
  "pending (snd (call_handler e h a)) = pending a"
  "invoked (snd (call_handler e h a)) = invoked a @ [h]"
  "stage2_runs (snd (call_handler e h a)) = stage2_runs a"
  by (simp_all add: call_handler_def Let_def split: option.split)
     (simp_all add: stage2_runs_def)

lemma run_to_save_keeps_all:
  "files (snd (run_to_save e l a)) = files a
 \<and> crashlogfile (snd (run_to_save e l a)) = crashlogfile a
 \<and> faulthandler (snd (run_to_save e l a)) = faulthandler a
 \<and> shutting_down (snd (run_to_save e l a)) = shutting_down a
 \<and> pending (snd (run_to_save e l a)) = pending a
 \<and> stage2_runs (snd (run_to_save e l a)) = stage2_runs a"
proof (induction l arbitrary: a)
  case Nil
  show ?case by simp
next
  case (Cons x rest)
  obtain what handler where x: "x = (what, handler)"
    by (cases x)
  define r where "r = call_handler e handler
      (log_msg Debug (''Saving '' @ what @ '' (handler: {})'') a)"
  obtain out a1 where c: "r = (out, a1)"
    by (cases r)
  have a1: "a1 = snd r"
    by (simp add: c)
  have k: "files a1 = files a" "crashlogfile a1 = crashlogfile a" "faulthandler a1 = faulthandler a"
    "shutting_down a1 = shutting_down a" "pending a1 = pending a" "stage2_runs a1 = stage2_runs a"
    unfolding a1 r_def by (simp_all add: stage2_runs_log_msg)
  note c = c [unfolded r_def]
  show ?case
  proof (cases out)
    case Returns
    then show ?thesis
      using Cons.IH [of a1] c k by (simp add: x)
  next
    case (Raises ex)
    show ?thesis
    proof (cases "ex = AttributeError")
      case True
      then show ?thesis
        using Cons.IH [of "log_msg Debug ''{}''
            (log_msg Warning (''Could not save '' @ what @ ''.'') a1)"] c k Raises
        by (simp add: x stage2_runs_log_msg)
    next
      case False
      then show ?thesis
        using c k Raises by (cases ex) (simp_all add: x)
    qed
  next
    case (SystemExit code)
    then show ?thesis
      using c k by (simp add: x)
  qed
qed

lemmas run_to_save_keeps [simp] =
  run_to_save_keeps_all [THEN conjunct1]
  run_to_save_keeps_all [THEN conjunct2, THEN conjunct1]
  run_to_save_keeps_all [THEN conjunct2, THEN conjunct2, THEN conjunct1]
  run_to_save_keeps_all [THEN conjunct2, THEN conjunct2, THEN conjunct2, THEN conjunct1]
  run_to_save_keeps_all [THEN conjunct2, THEN conjunct2, THEN conjunct2, THEN conjunct2,
    THEN conjunct1]
  run_to_save_keeps_all [THEN conjunct2, THEN conjunct2, THEN conjunct2, THEN conjunct2,
    THEN conjunct2]

lemma save_everything_keeps [simp]:
  "files (snd (save_everything e a)) = files a"
  "crashlogfile (snd (save_everything e a)) = crashlogfile a"
  "faulthandler (snd (save_everything e a)) = faulthandler a"
  "shutting_down (snd (save_everything e a)) = shutting_down a"
  "pending (snd (save_everything e a)) = pending a"
  "stage2_runs (snd (save_everything e a)) = stage2_runs a"
  by (simp_all add: save_everything_def objreg_get_def stage2_runs_log_msg split: option.split)

lemma destroy_crashlogfile_keeps [simp]:
  "shutting_down (snd (destroy_crashlogfile e a)) = shutting_down a"
  "pending (snd (destroy_crashlogfile e a)) = pending a"
  "stage2_runs (snd (destroy_crashlogfile e a)) = stage2_runs a"
  "registry (snd (destroy_crashlogfile e a)) = registry a"
  "invoked (snd (destroy_crashlogfile e a)) = invoked a"
  "spawned (snd (destroy_crashlogfile e a)) = spawned a"
  "message_handler (snd (destroy_crashlogfile e a)) = message_handler a"
  "exit_status (snd (destroy_crashlogfile e a)) = exit_status a"
  "fst (destroy_crashlogfile e a) = Returns"
  by (simp_all add: destroy_crashlogfile_def os_remove_def Let_def stage2_runs_def log_msg_def
        split: option.split)

lemma destroy_crashlogfile_None:
  "crashlogfile a = None \<Longrightarrow> destroy_crashlogfile e a = (Returns, a)"
  by (simp add: destroy_crashlogfile_def)

lemma stage2_begin_keeps [simp]:
  "files (stage2_begin e a) = files a"
  "crashlogfile (stage2_begin e a) = crashlogfile a"
  "faulthandler (stage2_begin e a) = faulthandler a"
  "shutting_down (stage2_begin e a) = shutting_down a"
  "pending (stage2_begin e a) = pending a"
  "registry (stage2_begin e a) = registry a"
  "invoked (stage2_begin e a) = invoked a"
  "stage2_runs (stage2_begin e a) = stage2_runs a + 1"
  by (simp_all add: stage2_begin_def stage2_runs_def log_msg_def)

lemma shutdown_stage2_chain:
  "shutdown_stage2 e s a =
     and_then (remove_eventfilter (stage2_begin e a)) (\<lambda>a3.
     and_then (close_tabs a3) (\<lambda>a4.
     and_then (save_everything e a4) (\<lambda>a5.
     and_then (destroy_crashlogfile e (log_msg Debug ''Deactiving crash log...'' a5)) (\<lambda>a6.
       (Returns,
        (log_msg Debug ''Deferring QApplication::exit...''
           ((log_msg Debug ''Cleaning up object registry...''
               ((log_msg Debug ''Deactiving message handler...'' a6)
                  \<lparr>message_handler := False\<rparr>))
              \<lparr>registry := objreg_clear\<rparr>))
          \<lparr>pending := pending a6 @ [Cb_exit s]\<rparr>)))))"
  by (simp add: shutdown_stage2_def stage2_begin_def Let_def log_msg_def)

lemma shutdown_stage2_counts:
  "shutting_down (snd (shutdown_stage2 e s a)) = shutting_down a"
  "stage2_runs (snd (shutdown_stage2 e s a)) = stage2_runs a + 1"
  "filter is_stage2 (pending (snd (shutdown_stage2 e s a))) = filter is_stage2 (pending a)"
  unfolding shutdown_stage2_chain
  by (simp_all add: snd_and_then stage2_runs_log_msg)

lemma shutdown_stage2_crashlog_None:
  assumes "crashlogfile a = None"
  shows "files (snd (shutdown_stage2 e s a)) = files a"
    "crashlogfile (snd (shutdown_stage2 e s a)) = None"
    "faulthandler (snd (shutdown_stage2 e s a)) = faulthandler a"
  unfolding shutdown_stage2_chain
  by (simp_all add: snd_and_then destroy_crashlogfile_None assms)

section \<open>Properties of the crash log\<close>

lemma logname_example: "logname example_env = ''/data/crash.log''"
  by (simp add: logname_def example_env_def path_join_def)

lemma logname_readonly: "logname readonly_env = ''/data/crash.log''"
  by (simp add: logname_def readonly_env_def example_env_def path_join_def)

lemma read_text_Inr:
  "read_text e path fs = Inr data \<longleftrightarrow>
     fs path = Some data \<and> read_permitted e \<and> is_ascii data"
  by (auto simp add: read_text_def split: option.splits)

text \<open>
  C4 (as amended). At startup: with no crash log, a fresh one is created and
  \<open>faulthandler\<close> writes to it; with a crash log that is read as empty, the file is left
  as it is, no file object is kept, \<open>faulthandler\<close> is left as it was and a warning is
  logged; with a crash log that is read (it may be read and decodes as ASCII) and has
  content, the crash dialog built from the content is shown, and when the file can be
  removed it is removed, a fresh one is created and \<open>faulthandler\<close> writes to it, while
  on \<open>PermissionError\<close> a warning is logged, the file and \<open>faulthandler\<close> are left as
  they were and no file object is kept.
\<close>

theorem handle_segfault_transitions:
  "(files a (logname e) = None \<longrightarrow>
      fst (handle_segfault e a) = Returns
    \<and> files (snd (handle_segfault e a)) = (files a)(logname e \<mapsto> [])
    \<and> crashlogfile (snd (handle_segfault e a)) = Some \<lparr>fname = logname e, closed = False\<rparr>
    \<and> faulthandler (snd (handle_segfault e a)) = FH_file (logname e)
    \<and> dialogs_shown (snd (handle_segfault e a)) = dialogs_shown a)
 \<and> (read_text e (logname e) (files a) = Inr [] \<longrightarrow>
      fst (handle_segfault e a) = Returns
    \<and> files (snd (handle_segfault e a)) = files a
    \<and> crashlogfile (snd (handle_segfault e a)) = None
    \<and> faulthandler (snd (handle_segfault e a)) = faulthandler a
    \<and> dialogs_shown (snd (handle_segfault e a)) = dialogs_shown a
    \<and> failures_logged (logged (snd (handle_segfault e a))) =
        failures_logged (logged a) @
        [(Warning,
          ''Empty crash log detected. This means either another instance is '' @
          ''running (then ignore this warning) or the file is lying here '' @
          ''because of some earlier crash (then delete '' @ logname e @ '').'')])
 \<and> (\<forall>data. read_text e (logname e) (files a) = Inr data \<and> data \<noteq> [] \<and>
             remove_permitted e \<longrightarrow>
      fst (handle_segfault e a) = Returns
    \<and> files (snd (handle_segfault e a)) = (files a)(logname e \<mapsto> [])
    \<and> crashlogfile (snd (handle_segfault e a)) = Some \<lparr>fname = logname e, closed = False\<rparr>
    \<and> faulthandler (snd (handle_segfault e a)) = FH_file (logname e)
    \<and> crashdlg (snd (handle_segfault e a)) = Some (FatalCrashDialog data)
    \<and> dialogs_shown (snd (handle_segfault e a)) = dialogs_shown a @ [FatalCrashDialog data])
 \<and> (\<forall>data. read_text e (logname e) (files a) = Inr data \<and> data \<noteq> [] \<and>
             \<not> remove_permitted e \<longrightarrow>
      fst (handle_segfault e a) = Returns
    \<and> files (snd (handle_segfault e a)) = files a
    \<and> crashlogfile (snd (handle_segfault e a)) = crashlogfile a
    \<and> faulthandler (snd (handle_segfault e a)) = faulthandler a
    \<and> crashdlg (snd (handle_segfault e a)) = Some (FatalCrashDialog data)
    \<and> dialogs_shown (snd (handle_segfault e a)) = dialogs_shown a @ [FatalCrashDialog data]
    \<and> failures_logged (logged (snd (handle_segfault e a))) =
        failures_logged (logged a) @ [(Warning, ''Could not remove crash log!'')])"
proof -
  have absent: "handle_segfault e a = (Returns, init_crashlogfile e a)"
    if "files a (logname e) = None"
    using that by (simp add: handle_segfault_def)
  have present: "handle_segfault e a =
      (if data \<noteq> [] then
         (if remove_permitted e then
            (Returns,
             show_fatal_crash_dialog data
               (init_crashlogfile e (a\<lparr>files := (files a)(logname e := None)\<rparr>)))
          else
            (Returns,
             show_fatal_crash_dialog data (log_msg Warning ''Could not remove crash log!'' a)))
       else
         (Returns,
          (log_msg Warning
             (''Empty crash log detected. This means either another instance is '' @
              ''running (then ignore this warning) or the file is lying here '' @
              ''because of some earlier crash (then delete '' @ logname e @ '').'')
             a)\<lparr>crashlogfile := None\<rparr>))"
    if r: "read_text e (logname e) (files a) = Inr data" for data
  proof -
    have fs: "files a (logname e) = Some data"
      using r by (simp add: read_text_Inr)
    show ?thesis
      by (simp add: handle_segfault_def os_remove_def r fs)
  qed
  show ?thesis
    using absent present [of "[]"]
    by (auto simp add: present init_crashlogfile_def show_fatal_crash_dialog_def log_msg_def
          failures_logged_def)
qed

theorem handle_segfault_transitions_witness:
  "files starting_app (logname example_env) = None
 \<and> files (snd (handle_segfault example_env starting_app)) ''/data/crash.log'' = Some []
 \<and> faulthandler (snd (handle_segfault example_env starting_app)) = FH_file ''/data/crash.log''
 \<and> read_text example_env (logname example_env) (files stale_app) = Inr []
 \<and> files (snd (handle_segfault example_env stale_app)) = files stale_app
 \<and> faulthandler (snd (handle_segfault example_env stale_app)) = FH_stderr
 \<and> read_text example_env (logname example_env) (files crashed_app) = Inr ''Fatal Python error''
 \<and> remove_permitted example_env
 \<and> files (snd (handle_segfault example_env crashed_app)) ''/data/crash.log'' = Some []
 \<and> dialogs_shown (snd (handle_segfault example_env crashed_app)) =
     [FatalCrashDialog ''Fatal Python error'']
 \<and> read_text readonly_env (logname readonly_env) (files crashed_app) = Inr ''Fatal Python error''
 \<and> \<not> remove_permitted readonly_env
 \<and> files (snd (handle_segfault readonly_env crashed_app)) = files crashed_app
 \<and> dialogs_shown (snd (handle_segfault readonly_env crashed_app)) =
     [FatalCrashDialog ''Fatal Python error'']"
proof -
  have p: "remove_permitted example_env" "\<not> remove_permitted readonly_env"
    "read_permitted example_env" "read_permitted readonly_env"
    by (simp_all add: example_env_def readonly_env_def)
  have f: "files starting_app (logname example_env) = None"
    "read_text example_env (logname example_env) (files stale_app) = Inr []"
    "read_text example_env (logname example_env) (files crashed_app) = Inr ''Fatal Python error''"
    "read_text readonly_env (logname readonly_env) (files crashed_app) = Inr ''Fatal Python error''"
    using p
    by (simp_all add: logname_example logname_readonly read_text_def is_ascii_def
          starting_app_def stale_app_def crashed_app_def example_app_def)
  have s: "faulthandler stale_app = FH_stderr" "dialogs_shown crashed_app = []"
    by (simp_all add: stale_app_def crashed_app_def starting_app_def example_app_def)
  show ?thesis
    using handle_segfault_transitions [of starting_app example_env]
      handle_segfault_transitions [of stale_app example_env]
      handle_segfault_transitions [of crashed_app example_env]
      handle_segfault_transitions [of crashed_app readonly_env]
      f p s
    by (simp add: logname_example logname_readonly)
qed

text \<open>
  C4 as stated has the crash log with content always deleted and replaced. Where the
  file cannot be removed it keeps its content, and \<open>faulthandler\<close> is not pointed
  at it.
\<close>

theorem handle_segfault_not_removed_counterexample:
  "read_text readonly_env (logname readonly_env) (files crashed_app) = Inr ''Fatal Python error''
 \<and> fst (handle_segfault readonly_env crashed_app) = Returns
 \<and> files (snd (handle_segfault readonly_env crashed_app)) (logname readonly_env) =
     Some ''Fatal Python error''
 \<and> crashlogfile (snd (handle_segfault readonly_env crashed_app)) = None
 \<and> faulthandler (snd (handle_segfault readonly_env crashed_app)) = FH_stderr"
proof -
  have p: "\<not> remove_permitted readonly_env" "read_permitted readonly_env"
    by (simp_all add: readonly_env_def example_env_def)
  show ?thesis
    using p
    by (simp add: logname_readonly handle_segfault_def os_remove_def read_text_def is_ascii_def
          crashed_app_def starting_app_def example_app_def show_fatal_crash_dialog_def
          log_msg_def)
qed

text \<open>
  A case that the theorem above leaves out: when the crash log cannot be read, or its
  content does not decode as ASCII, the exception of \<open>open\<close> or \<open>read\<close> leaves
  \<open>_handle_segfault\<close> and nothing has been changed.
\<close>

lemma handle_segfault_read_fails:
  assumes "files a (logname e) \<noteq> None" and "read_text e (logname e) (files a) = Inl ex"
  shows "handle_segfault e a = (Raises ex, a)"
  using assms by (simp add: handle_segfault_def)

lemma handle_segfault_garbled:
  "handle_segfault example_env garbled_app = (Raises UnicodeDecodeError, garbled_app)"
proof -
  have "files garbled_app (logname example_env) \<noteq> None"
    by (simp add: logname_example garbled_app_def)
  moreover have "read_permitted example_env"
    by (simp add: example_env_def)
  then have "read_text example_env (logname example_env) (files garbled_app) =
      Inl UnicodeDecodeError"
    by (simp add: logname_example read_text_def is_ascii_def garbled_app_def)
  ultimately show ?thesis
    by (rule handle_segfault_read_fails)
qed

section \<open>Properties of restart\<close>

lemma basename_examples:
  "basename ''qutebrowser'' = ''qutebrowser''"
  "basename ''/usr/bin/qutebrowser'' = ''qutebrowser''"
  "basename ''prog'' = ''prog''"
  "basename ''/opt/qb/prog'' = ''prog''"
  by (simp_all add: basename_def)

lemma dirname_examples:
  "dirname ''/opt/qb/prog'' = ''/opt/qb''"
  "dirname ''/lib/qutebrowser/__init__.py'' = ''/lib/qutebrowser''"
  "dirname ''/usr/bin/python3'' = ''/usr/bin''"
  "dirname ''/prog'' = ''/''"
  "dirname ''prog'' = []"
  by (simp_all add: dirname_def)

text \<open>
  C5 (as amended). The command of the new process is the launch vector re-derived from
  how the program was started, then the arguments after \<open>sys.argv[0]\<close> that begin with
  \<open>-\<close>, then the pages: the launch vector is \<open>[sys.argv[0]]\<close> with the working
  directory inherited when the base name of \<open>sys.argv[0]\<close> is \<open>qutebrowser\<close>;
  \<open>[sys.executable]\<close> in the executable's directory when frozen;
  \<open>[sys.executable, "-m", "qutebrowser"]\<close> in the parent of the package's directory
  otherwise. \<open>restart\<close> starts exactly one process, with this command and directory.
  For \<open>sys.argv = ["qutebrowser", "--debug"]\<close> and the pages \<open>https://x\<close>,
  \<open>https://y\<close> the command is \<open>["qutebrowser", "--debug", "https://x", "https://y"]\<close>.
\<close>

theorem restart_relaunch_command:
  assumes "argv e = argv0 # rest"
  shows "(basename argv0 = ''qutebrowser'' \<longrightarrow>
            relaunch_command e pages =
              Inr ([argv0] @ filter startswith_dash rest @ pages, None))
       \<and> (basename argv0 \<noteq> ''qutebrowser'' \<and> frozen e \<longrightarrow>
            relaunch_command e pages =
              Inr ([executable e] @ filter startswith_dash rest @ pages,
                   Some (abspath e (dirname (executable e)))))
       \<and> (basename argv0 \<noteq> ''qutebrowser'' \<and> \<not> frozen e \<longrightarrow>
            relaunch_command e pages =
              Inr ([executable e, ''-m'', ''qutebrowser''] @ filter startswith_dash rest @ pages,
                   Some (path_join (abspath e (dirname (package_file e))) ''..'')))
       \<and> (\<exists>args cwd. relaunch_command e pages = Inr (args, cwd)
            \<and> fst (restart e False (Some pages) a) = Returns
            \<and> spawned (snd (restart e False (Some pages) a)) = spawned a @ [(args, cwd)])"
  using assms
  by (simp add: relaunch_command_def restart_def log_msg_def)

theorem restart_relaunch_command_witness:
  "argv example_env = [''qutebrowser'', ''--debug'']
 \<and> relaunch_command example_env [''https://x'', ''https://y''] =
     Inr ([''qutebrowser'', ''--debug'', ''https://x'', ''https://y''], None)
 \<and> spawned (snd (restart example_env False (Some [''https://x'', ''https://y'']) example_app)) =
     [([''qutebrowser'', ''--debug'', ''https://x'', ''https://y''], None)]
 \<and> relaunch_command frozen_env [''https://x'', ''https://y''] =
     Inr ([''/opt/qb/prog'', ''--debug'', ''-v'', ''https://x'', ''https://y''], Some ''/opt/qb'')
 \<and> relaunch_command module_env [''https://x'', ''https://y''] =
     Inr ([''/usr/bin/python3'', ''-m'', ''qutebrowser'', ''--debug'', ''https://x'', ''https://y''],
          Some ''/lib/qutebrowser/..'')
 \<and> relaunch_command frozen_prog_env [''https://x'', ''https://y''] =
     Inr ([''prog'', ''--debug'', ''https://x'', ''https://y''], Some [])"
proof -
  have a4: "argv frozen_prog_env = ''prog'' # [''--debug'']"
    and f4: "frozen frozen_prog_env" "executable frozen_prog_env = ''prog''"
      "abspath frozen_prog_env = id"
    by (simp_all add: example_env_def frozen_prog_env_def)
  have a1: "argv example_env = ''qutebrowser'' # [''--debug'']"
    and a2: "argv frozen_env = ''/opt/qb/prog'' # [''--debug'', ''https://old'', '':set'', ''-v'']"
    and a3: "argv module_env = ''prog'' # [''--debug'']"
    by (simp_all add: example_env_def frozen_env_def module_env_def)
  have f: "frozen frozen_env" "\<not> frozen module_env" "executable frozen_env = ''/opt/qb/prog''"
    "executable module_env = ''/usr/bin/python3''" "abspath frozen_env = id" "abspath module_env = id"
    "package_file module_env = ''/lib/qutebrowser/__init__.py''"
    by (simp_all add: example_env_def frozen_env_def module_env_def)
  have s: "spawned example_app = []"
    by (simp add: example_app_def)
  show ?thesis
    using restart_relaunch_command [OF a1, of "[''https://x'', ''https://y'']" example_app]
      restart_relaunch_command [OF a2, of "[''https://x'', ''https://y'']" example_app]
      restart_relaunch_command [OF a3, of "[''https://x'', ''https://y'']" example_app]
      restart_relaunch_command [OF a4, of "[''https://x'', ''https://y'']" example_app]
      a1 f f4 s
    by (auto simp add: basename_examples dirname_examples startswith_dash_def path_join_def)
qed

text \<open>
  C5 as stated gives \<open>["prog", "--debug", "https://x", "https://y"]\<close> for the launch
  vector \<open>["prog", "--debug"]\<close>. Started as a module, the program is relaunched through
  the interpreter instead.
\<close>

theorem restart_prog_counterexample:
  "argv module_env = [''prog'', ''--debug'']
 \<and> relaunch_command module_env [''https://x'', ''https://y''] =
     Inr ([''/usr/bin/python3'', ''-m'', ''qutebrowser'', ''--debug'', ''https://x'', ''https://y''],
          Some ''/lib/qutebrowser/..'')
 \<and> fst (restart module_env False (Some [''https://x'', ''https://y'']) example_app) = Returns
 \<and> spawned (snd (restart module_env False (Some [''https://x'', ''https://y'']) example_app)) \<noteq>
     [([''prog'', ''--debug'', ''https://x'', ''https://y''], None)]"
proof -
  have f: "argv module_env = [''prog'', ''--debug'']" "\<not> frozen module_env"
    "executable module_env = ''/usr/bin/python3''" "abspath module_env = id"
    "package_file module_env = ''/lib/qutebrowser/__init__.py''"
    by (simp_all add: example_env_def module_env_def)
  have s: "spawned example_app = []"
    by (simp add: example_app_def)
  show ?thesis
    using f s
    by (simp add: relaunch_command_def restart_def log_msg_def basename_examples
          dirname_examples startswith_dash_def path_join_def)
qed

section \<open>Properties of shutdown\<close>

lemma shutdown_budget:
  "stage2_budget (snd (shutdown e s a)) \<le> stage2_budget a"
proof (cases "shutting_down a")
  case True
  then show ?thesis by (simp add: shutdown_def)
next
  case False
  define a1 where "a1 = log_msg Debug ''Shutting down with status {}...'' (a\<lparr>shutting_down := True\<rparr>)"
  have a1: "shutting_down a1" "stage2_runs a1 = stage2_runs a" "pending a1 = pending a"
    by (simp_all add: a1_def stage2_runs_log_msg)
  show ?thesis
  proof (cases "reg_prompter (registry a1)")
    case None
    then have "shutdown e s a = shutdown_stage2 e s a1"
      using False by (simp add: shutdown_def a1_def Let_def)
    then show ?thesis
      using a1 False by (simp add: stage2_budget_def shutdown_stage2_counts)
  next
    case (Some p)
    define a2 where "a2 = a1\<lparr>registry := (registry a1)\<lparr>reg_prompter := Some (p\<lparr>question_active := False\<rparr>)\<rparr>\<rparr>"
    have a2: "shutting_down a2" "stage2_runs a2 = stage2_runs a" "pending a2 = pending a"
      using a1 by (simp_all add: a2_def)
    show ?thesis
    proof (cases "question_active p")
      case True
      then have "shutdown e s a =
          (Returns, (log_msg Debug ''Deferring real shutdown because question was active.'' a2)
                      \<lparr>pending := pending a2 @ [Cb_stage2 s]\<rparr>)"
        using False Some by (simp add: shutdown_def a1_def a2_def Let_def prompter_shutdown_def)
      then show ?thesis
        using a2 False by (simp add: stage2_budget_def stage2_runs_log_msg)
    next
      case no: False
      then have "shutdown e s a = shutdown_stage2 e s a2"
        using False Some by (simp add: shutdown_def a1_def a2_def Let_def prompter_shutdown_def)
      then show ?thesis
        using a2 False by (simp add: stage2_budget_def shutdown_stage2_counts)
    qed
  qed
qed

lemma deliver_budget:
  "stage2_budget (snd (deliver sig a)) = stage2_budget a"
  by (simp add: deliver_def interrupt_def interrupt_forcefully_def
        interrupt_really_forcefully_def stage2_budget_def stage2_runs_log_msg
        split: sig_handler.split)

lemma tick_budget:
  "stage2_budget (snd (tick e a)) \<le> stage2_budget a"
proof (cases "pending a")
  case Nil
  then show ?thesis by (simp add: tick_def)
next
  case (Cons cb rest)
  define b where "b = a\<lparr>pending := rest\<rparr>"
  have b: "shutting_down b = shutting_down a" "stage2_runs b = stage2_runs a" "pending b = rest"
    by (simp_all add: b_def)
  have t: "tick e a = run_callback e cb b"
    using Cons by (simp add: tick_def b_def)
  show ?thesis
  proof (cases cb)
    case (Cb_shutdown s)
    have "stage2_budget (snd (shutdown e s b)) \<le> stage2_budget b"
      by (rule shutdown_budget)
    then show ?thesis
      using t b Cons Cb_shutdown by (simp add: run_callback_def stage2_budget_def)
  next
    case (Cb_stage2 s)
    then show ?thesis
      using t b Cons by (simp add: run_callback_def stage2_budget_def shutdown_stage2_counts)
  next
    case (Cb_exit s)
    then show ?thesis
      using t b Cons
      by (simp add: run_callback_def stage2_budget_def app_exit_def stage2_runs_log_msg)
  qed
qed

lemma step_budget:
  "stage2_budget (snd (step e ev a)) \<le> stage2_budget a"
  by (cases ev) (simp_all add: step_def shutdown_budget deliver_budget tick_budget)

lemma run_budget:
  "stage2_budget (run e evs a) \<le> stage2_budget a"
proof (induction evs arbitrary: a)
  case Nil
  show ?case by simp
next
  case (Cons ev evs)
  obtain out a1 where s: "step e ev a = (out, a1)"
    by (cases "step e ev a")
  have le: "stage2_budget a1 \<le> stage2_budget a"
    using step_budget [of e ev a] by (simp add: s)
  show ?case
  proof (cases out)
    case (SystemExit code)
    then show ?thesis using s le by simp
  next
    case Returns
    then show ?thesis
      using s le Cons.IH [of a1] by simp
  next
    case (Raises ex)
    then show ?thesis
      using s le Cons.IH [of a1] by simp
  qed
qed

lemma stage2_runs_le_budget: "stage2_runs a \<le> stage2_budget a"
  by (simp add: stage2_budget_def)

text \<open>
  C1. Shutdown is idempotent. From a state where the latch \<open>_shutting_down\<close> is not set
  and no second stage is queued, any sequence of calls of \<open>shutdown\<close> (with any status),
  signal deliveries and run-loop iterations executes \<open>_shutdown\<close> at most once. Once the
  latch is set, \<open>shutdown\<close> returns at once and changes nothing. When a modal question
  prompt is active, the first call sets the latch and queues \<open>_shutdown\<close> for the run
  loop without running it; otherwise it runs \<open>_shutdown\<close> inline, once, and queues no
  second stage.
\<close>

theorem shutdown_idempotent:
  "(\<not> shutting_down a \<and> filter is_stage2 (pending a) = [] \<longrightarrow>
      stage2_runs (run e evs a) \<le> stage2_runs a + 1)
 \<and> (shutting_down a \<longrightarrow> shutdown e status a = (Returns, a))
 \<and> (\<forall>p. \<not> shutting_down a \<and> reg_prompter (registry a) = Some p \<and> question_active p \<longrightarrow>
      fst (shutdown e status a) = Returns
    \<and> shutting_down (snd (shutdown e status a))
    \<and> stage2_runs (snd (shutdown e status a)) = stage2_runs a
    \<and> pending (snd (shutdown e status a)) = pending a @ [Cb_stage2 status])
 \<and> (\<not> shutting_down a \<and>
      (case reg_prompter (registry a) of None \<Rightarrow> True | Some p \<Rightarrow> \<not> question_active p) \<longrightarrow>
      shutting_down (snd (shutdown e status a))
    \<and> stage2_runs (snd (shutdown e status a)) = stage2_runs a + 1
    \<and> filter is_stage2 (pending (snd (shutdown e status a))) = filter is_stage2 (pending a))"
proof -
  have one: "stage2_runs (run e evs a) \<le> stage2_runs a + 1"
    if "\<not> shutting_down a" "filter is_stage2 (pending a) = []"
  proof -
    have "stage2_runs (run e evs a) \<le> stage2_budget (run e evs a)"
      by (rule stage2_runs_le_budget)
    also have "\<dots> \<le> stage2_budget a"
      by (rule run_budget)
    also have "\<dots> = stage2_runs a + 1"
      using that by (simp add: stage2_budget_def)
    finally show ?thesis .
  qed
  have latch: "shutdown e status a = (Returns, a)" if "shutting_down a"
    using that by (simp add: shutdown_def)
  have deferred: "fst (shutdown e status a) = Returns
    \<and> shutting_down (snd (shutdown e status a))
    \<and> stage2_runs (snd (shutdown e status a)) = stage2_runs a
    \<and> pending (snd (shutdown e status a)) = pending a @ [Cb_stage2 status]"
    if "\<not> shutting_down a" "reg_prompter (registry a) = Some p" "question_active p" for p
    using that
    by (simp add: shutdown_def Let_def prompter_shutdown_def stage2_runs_log_msg)
  have inline: "shutting_down (snd (shutdown e status a))
    \<and> stage2_runs (snd (shutdown e status a)) = stage2_runs a + 1
    \<and> filter is_stage2 (pending (snd (shutdown e status a))) = filter is_stage2 (pending a)"
    if "\<not> shutting_down a"
      "case reg_prompter (registry a) of None \<Rightarrow> True | Some p \<Rightarrow> \<not> question_active p"
    using that
    by (auto simp add: shutdown_def Let_def prompter_shutdown_def shutdown_stage2_counts
          stage2_runs_log_msg split: option.splits)
  show ?thesis
    using one latch deferred inline by blast
qed

theorem shutdown_idempotent_witness:
  "\<not> shutting_down example_app \<and> filter is_stage2 (pending example_app) = []
 \<and> stage2_runs (run example_env [Ev_shutdown 0, Ev_shutdown 0, Ev_tick, Ev_shutdown 1] example_app) \<le> 1
 \<and> stage2_runs (snd (shutdown example_env 0 example_app)) = 1
 \<and> shutting_down latched_app
 \<and> shutdown example_env 3 latched_app = (Returns, latched_app)
 \<and> reg_prompter (registry asking_app) = Some \<lparr>question_active = True\<rparr>
 \<and> stage2_runs (snd (shutdown example_env 0 asking_app)) = 0
 \<and> pending (snd (shutdown example_env 0 asking_app)) = [Cb_stage2 0]"
proof -
  have ex: "\<not> shutting_down example_app" "pending example_app = []" "stage2_runs example_app = 0"
    "reg_prompter (registry example_app) = Some \<lparr>question_active = False\<rparr>"
    by (simp_all add: example_app_def example_registry_def stage2_runs_def)
  have la: "shutting_down latched_app"
    by (simp add: latched_app_def)
  have ask: "\<not> shutting_down asking_app" "pending asking_app = []" "stage2_runs asking_app = 0"
    "reg_prompter (registry asking_app) = Some \<lparr>question_active = True\<rparr>"
    by (simp_all add: asking_app_def example_app_def stage2_runs_def)
  show ?thesis
    using ex la ask
      shutdown_idempotent [of example_app example_env
        "[Ev_shutdown 0, Ev_shutdown 0, Ev_tick, Ev_shutdown 1]" 0]
      shutdown_idempotent [of latched_app example_env "[]" 3]
      shutdown_idempotent [of asking_app example_env "[]" 0]
    by simp
qed

section \<open>What the steps of the exception hook leave unchanged\<close>

lemma shutdown_crashlog_None:
  assumes "crashlogfile a = None"
  shows "files (snd (shutdown e s a)) = files a
       \<and> crashlogfile (snd (shutdown e s a)) = None
       \<and> faulthandler (snd (shutdown e s a)) = faulthandler a"
  using assms
  by (simp add: shutdown_def Let_def prompter_shutdown_def shutdown_stage2_crashlog_None
        split: option.split)

lemma recover_tabs_keeps_all:
  "files (snd (recover_tabs tabs a)) = files a
 \<and> crashlogfile (snd (recover_tabs tabs a)) = crashlogfile a
 \<and> faulthandler (snd (recover_tabs tabs a)) = faulthandler a
 \<and> shutting_down (snd (recover_tabs tabs a)) = shutting_down a
 \<and> pending (snd (recover_tabs tabs a)) = pending a
 \<and> stage2_runs (snd (recover_tabs tabs a)) = stage2_runs a
 \<and> registry (snd (recover_tabs tabs a)) = registry a
 \<and> invoked (snd (recover_tabs tabs a)) = invoked a
 \<and> spawned (snd (recover_tabs tabs a)) = spawned a
 \<and> message_handler (snd (recover_tabs tabs a)) = message_handler a
 \<and> exit_status (snd (recover_tabs tabs a)) = exit_status a"
  by (induction tabs a rule: recover_tabs.induct)
     (simp_all add: stage2_runs_log_msg split_beta)

lemma recover_tabs_pages:
  "fst (recover_tabs tabs a) = fst (recover_tabs tabs b)"
  by (induction tabs a arbitrary: b rule: recover_tabs.induct)
     (simp_all add: split_beta)

lemmas recover_tabs_keeps [simp] =
  recover_tabs_keeps_all [THEN conjunct1]
  recover_tabs_keeps_all [THEN conjunct2, THEN conjunct1]
  recover_tabs_keeps_all [THEN conjunct2, THEN conjunct2, THEN conjunct1]
  recover_tabs_keeps_all [THEN conjunct2, THEN conjunct2, THEN conjunct2, THEN conjunct1]
  recover_tabs_keeps_all [THEN conjunct2, THEN conjunct2, THEN conjunct2, THEN conjunct2,
    THEN conjunct1]
  recover_tabs_keeps_all [THEN conjunct2, THEN conjunct2, THEN conjunct2, THEN conjunct2,
    THEN conjunct2, THEN conjunct1]
  recover_tabs_keeps_all [THEN conjunct2, THEN conjunct2, THEN conjunct2, THEN conjunct2,
    THEN conjunct2, THEN conjunct2, THEN conjunct1]
  recover_tabs_keeps_all [THEN conjunct2, THEN conjunct2, THEN conjunct2, THEN conjunct2,
    THEN conjunct2, THEN conjunct2, THEN conjunct2, THEN conjunct1]
  recover_tabs_keeps_all [THEN conjunct2, THEN conjunct2, THEN conjunct2, THEN conjunct2,
    THEN conjunct2, THEN conjunct2, THEN conjunct2, THEN conjunct2, THEN conjunct1]
  recover_tabs_keeps_all [THEN conjunct2, THEN conjunct2, THEN conjunct2, THEN conjunct2,
    THEN conjunct2, THEN conjunct2, THEN conjunct2, THEN conjunct2, THEN conjunct2,
    THEN conjunct1]
  recover_tabs_keeps_all [THEN conjunct2, THEN conjunct2, THEN conjunct2, THEN conjunct2,
    THEN conjunct2, THEN conjunct2, THEN conjunct2, THEN conjunct2, THEN conjunct2,
    THEN conjunct2]

lemma hook_pages_keeps [simp]:
  "files (snd (hook_pages a)) = files a"
  "crashlogfile (snd (hook_pages a)) = crashlogfile a"
  "faulthandler (snd (hook_pages a)) = faulthandler a"
  "shutting_down (snd (hook_pages a)) = shutting_down a"
  "pending (snd (hook_pages a)) = pending a"
  "stage2_runs (snd (hook_pages a)) = stage2_runs a"
  "registry (snd (hook_pages a)) = registry a"
  "invoked (snd (hook_pages a)) = invoked a"
  "spawned (snd (hook_pages a)) = spawned a"
  "message_handler (snd (hook_pages a)) = message_handler a"
  "exit_status (snd (hook_pages a)) = exit_status a"
  by (simp_all add: hook_pages_def recover_pages_def objreg_get_def split_beta
        split: option.split)

lemma hook_pages_registry:
  "registry a = registry b \<Longrightarrow> fst (hook_pages a) = fst (hook_pages b)"
  using recover_tabs_pages [of _ a b]
  by (simp add: hook_pages_def recover_pages_def objreg_get_def split_beta
        split: option.split)

lemma hook_history_keeps [simp]:
  "files (snd (hook_history a)) = files a"
  "crashlogfile (snd (hook_history a)) = crashlogfile a"
  "faulthandler (snd (hook_history a)) = faulthandler a"
  "shutting_down (snd (hook_history a)) = shutting_down a"
  "pending (snd (hook_history a)) = pending a"
  "stage2_runs (snd (hook_history a)) = stage2_runs a"
  "registry (snd (hook_history a)) = registry a"
  "invoked (snd (hook_history a)) = invoked a"
  "spawned (snd (hook_history a)) = spawned a"
  "message_handler (snd (hook_history a)) = message_handler a"
  "exit_status (snd (hook_history a)) = exit_status a"
  by (simp_all add: hook_history_def objreg_get_def stage2_runs_log_msg split: option.split)

lemma hook_objects_keeps [simp]:
  "files (snd (hook_objects e a)) = files a"
  "crashlogfile (snd (hook_objects e a)) = crashlogfile a"
  "faulthandler (snd (hook_objects e a)) = faulthandler a"
  "shutting_down (snd (hook_objects e a)) = shutting_down a"
  "pending (snd (hook_objects e a)) = pending a"
  "stage2_runs (snd (hook_objects e a)) = stage2_runs a"
  "registry (snd (hook_objects e a)) = registry a"
  "invoked (snd (hook_objects e a)) = invoked a"
  "spawned (snd (hook_objects e a)) = spawned a"
  "message_handler (snd (hook_objects e a)) = message_handler a"
  "exit_status (snd (hook_objects e a)) = exit_status a"
  by (simp_all add: hook_objects_def stage2_runs_log_msg split: sum.split)

lemma prevent_shutdown_keeps [simp]:
  "files (prevent_shutdown a) = files a"
  "crashlogfile (prevent_shutdown a) = crashlogfile a"
  "faulthandler (prevent_shutdown a) = faulthandler a"
  "shutting_down (prevent_shutdown a) = shutting_down a"
  "pending (prevent_shutdown a) = pending a"
  "stage2_runs (prevent_shutdown a) = stage2_runs a"
  "registry (prevent_shutdown a) = registry a"
  "invoked (prevent_shutdown a) = invoked a"
  "spawned (prevent_shutdown a) = spawned a"
  "message_handler (prevent_shutdown a) = message_handler a"
  "exit_status (prevent_shutdown a) = exit_status a"
  by (simp_all add: prevent_shutdown_def stage2_runs_def log_msg_def)

lemma restart_False_keeps [simp]:
  "files (snd (restart e False (Some pages) a)) = files a"
  "crashlogfile (snd (restart e False (Some pages) a)) = crashlogfile a"
  "faulthandler (snd (restart e False (Some pages) a)) = faulthandler a"
  "shutting_down (snd (restart e False (Some pages) a)) = shutting_down a"
  "pending (snd (restart e False (Some pages) a)) = pending a"
  "stage2_runs (snd (restart e False (Some pages) a)) = stage2_runs a"
  "invoked (snd (restart e False (Some pages) a)) = invoked a"
  "message_handler (snd (restart e False (Some pages) a)) = message_handler a"
  "exit_status (snd (restart e False (Some pages) a)) = exit_status a"
  by (simp_all add: restart_def Let_def stage2_runs_def log_msg_def split: sum.split)

lemma restart_False_spawns:
  assumes "relaunch_command e pages = Inr cmd"
  shows "fst (restart e False (Some pages) a) = Returns"
    and "spawned (snd (restart e False (Some pages) a)) = spawned a @ [cmd]"
  using assms by (cases cmd; simp add: restart_def Let_def log_msg_def)+

lemma relaunch_command_Inr:
  "argv e \<noteq> [] \<Longrightarrow> \<exists>cmd. relaunch_command e pages = Inr cmd"
  by (cases "argv e") (simp_all add: relaunch_command_def Let_def split_beta)

lemma destroy_crashlogfile_depends:
  assumes "files b = files a" and "crashlogfile b = crashlogfile a"
    and "faulthandler b = faulthandler a"
  shows "files (snd (destroy_crashlogfile e b)) = files (snd (destroy_crashlogfile e a))"
    and "crashlogfile (snd (destroy_crashlogfile e b)) = crashlogfile (snd (destroy_crashlogfile e a))"
    and "faulthandler (snd (destroy_crashlogfile e b)) = faulthandler (snd (destroy_crashlogfile e a))"
  using assms
  by (simp_all add: destroy_crashlogfile_def os_remove_def Let_def log_msg_def split: option.split)

lemma stage2_runs_update_more [simp]:
  "stage2_runs (a\<lparr>crashdlg := d\<rparr>) = stage2_runs a"
  "stage2_runs (a\<lparr>dialogs_shown := ds\<rparr>) = stage2_runs a"
  "stage2_runs (a\<lparr>windows_closed := w\<rparr>) = stage2_runs a"
  "stage2_runs (a\<lparr>printed := p\<rparr>) = stage2_runs a"
  "stage2_runs (a\<lparr>quit_status_crash := q\<rparr>) = stage2_runs a"
  "stage2_runs (a\<lparr>spawned := sp\<rparr>) = stage2_runs a"
  "stage2_runs (a\<lparr>lastWindowClosed_connected := c\<rparr>) = stage2_runs a"
  by (simp_all add: stage2_runs_def)

lemma hook_before_dialog_keeps [simp]:
  "files (snd (hook_before_dialog e a)) = files a"
  "crashlogfile (snd (hook_before_dialog e a)) = crashlogfile a"
  "faulthandler (snd (hook_before_dialog e a)) = faulthandler a"
  "shutting_down (snd (hook_before_dialog e a)) = shutting_down a"
  "pending (snd (hook_before_dialog e a)) = pending a"
  "stage2_runs (snd (hook_before_dialog e a)) = stage2_runs a"
  "invoked (snd (hook_before_dialog e a)) = invoked a"
  "spawned (snd (hook_before_dialog e a)) = spawned a"
  "message_handler (snd (hook_before_dialog e a)) = message_handler a"
  "exit_status (snd (hook_before_dialog e a)) = exit_status a"
  by (simp_all add: hook_before_dialog_def Let_def split_beta)

lemma and_then_Returns:
  "fst r = Returns \<Longrightarrow> and_then r f = f (snd r)"
  by (cases r) (simp add: and_then_def)

lemma hook_before_dialog_pages:
  "fst (hook_before_dialog e a) = fst (hook_pages a)"
  using hook_pages_registry
          [of "a\<lparr>printed := printed a @ [''Traceback (most recent call last):''],
                    quit_status_crash := False\<rparr>" a]
  by (simp add: hook_before_dialog_def Let_def split_beta)

lemma exception_hook_chain:
  "exception_hook e Other_Exception a =
     and_then (if dialog_result e = Accepted
               then restart e False (Some (fst (hook_before_dialog e a)))
                      (snd (hook_before_dialog e a))
               else (Returns, snd (hook_before_dialog e a))) (\<lambda>a7.
     and_then (destroy_crashlogfile e (a7\<lparr>message_handler := False\<rparr>)) (\<lambda>a8.
       (SystemExit 1, a8)))"
  by (simp add: exception_hook_def hook_before_dialog_def Let_def split_beta)

lemma exception_hook_fault:
  assumes "relaunch_command e (fst (hook_pages a)) = Inr cmd"
  shows "fst (exception_hook e Other_Exception a) = SystemExit 1"
    and "message_handler (snd (exception_hook e Other_Exception a)) = False"
    and "shutting_down (snd (exception_hook e Other_Exception a)) = shutting_down a"
    and "stage2_runs (snd (exception_hook e Other_Exception a)) = stage2_runs a"
    and "invoked (snd (exception_hook e Other_Exception a)) = invoked a"
    and "pending (snd (exception_hook e Other_Exception a)) = pending a"
    and "exit_status (snd (exception_hook e Other_Exception a)) = exit_status a"
    and "spawned (snd (exception_hook e Other_Exception a)) =
           spawned a @ (if dialog_result e = Accepted then [cmd] else [])"
    and "files (snd (exception_hook e Other_Exception a)) =
           files (snd (destroy_crashlogfile e a))"
    and "crashlogfile (snd (exception_hook e Other_Exception a)) =
           crashlogfile (snd (destroy_crashlogfile e a))"
    and "faulthandler (snd (exception_hook e Other_Exception a)) =
           faulthandler (snd (destroy_crashlogfile e a))"
proof -
  define pages where "pages = fst (hook_before_dialog e a)"
  define a6 where "a6 = snd (hook_before_dialog e a)"
  define r where "r = (if dialog_result e = Accepted then restart e False (Some pages) a6
                        else (Returns, a6))"
  have cmd: "relaunch_command e pages = Inr cmd"
    using assms by (simp add: pages_def hook_before_dialog_pages)
  have r1: "fst r = Returns"
    using restart_False_spawns(1) [OF cmd] by (simp add: r_def)
  have r2: "files (snd r) = files a" "crashlogfile (snd r) = crashlogfile a"
    "faulthandler (snd r) = faulthandler a" "shutting_down (snd r) = shutting_down a"
    "pending (snd r) = pending a" "stage2_runs (snd r) = stage2_runs a"
    "invoked (snd r) = invoked a" "exit_status (snd r) = exit_status a"
    by (simp_all add: r_def a6_def)
  have r3: "spawned (snd r) = spawned a @ (if dialog_result e = Accepted then [cmd] else [])"
    using restart_False_spawns(2) [OF cmd] by (simp add: r_def a6_def)
  define b where "b = (snd r)\<lparr>message_handler := False\<rparr>"
  have b: "files b = files a" "crashlogfile b = crashlogfile a" "faulthandler b = faulthandler a"
    "shutting_down b = shutting_down a" "pending b = pending a" "stage2_runs b = stage2_runs a"
    "invoked b = invoked a" "exit_status b = exit_status a" "message_handler b = False"
    "spawned b = spawned a @ (if dialog_result e = Accepted then [cmd] else [])"
    using r2 r3 by (simp_all add: b_def stage2_runs_def)
  have "exception_hook e Other_Exception a =
      and_then r (\<lambda>a7.
        and_then (destroy_crashlogfile e (a7\<lparr>message_handler := False\<rparr>)) (\<lambda>a8.
          (SystemExit 1, a8)))"
    by (simp add: exception_hook_chain r_def pages_def a6_def)
  also have "\<dots> = and_then (destroy_crashlogfile e b) (\<lambda>a8. (SystemExit 1, a8))"
    by (simp add: and_then_Returns [OF r1] b_def)
  also have "\<dots> = (SystemExit 1, snd (destroy_crashlogfile e b))"
    by (simp add: and_then_Returns)
  finally have eq: "exception_hook e Other_Exception a =
      (SystemExit 1, snd (destroy_crashlogfile e b))" .
  show "fst (exception_hook e Other_Exception a) = SystemExit 1"
    and "message_handler (snd (exception_hook e Other_Exception a)) = False"
    and "shutting_down (snd (exception_hook e Other_Exception a)) = shutting_down a"
    and "stage2_runs (snd (exception_hook e Other_Exception a)) = stage2_runs a"
    and "invoked (snd (exception_hook e Other_Exception a)) = invoked a"
    and "pending (snd (exception_hook e Other_Exception a)) = pending a"
    and "exit_status (snd (exception_hook e Other_Exception a)) = exit_status a"
    and "spawned (snd (exception_hook e Other_Exception a)) =
           spawned a @ (if dialog_result e = Accepted then [cmd] else [])"
    using b by (simp_all add: eq)
  show "files (snd (exception_hook e Other_Exception a)) =
           files (snd (destroy_crashlogfile e a))"
    and "crashlogfile (snd (exception_hook e Other_Exception a)) =
           crashlogfile (snd (destroy_crashlogfile e a))"
    and "faulthandler (snd (exception_hook e Other_Exception a)) =
           faulthandler (snd (destroy_crashlogfile e a))"
    using destroy_crashlogfile_depends [OF b(1) b(2) b(3), of e] by (simp_all add: eq)
qed

section \<open>Properties of the crash log at shutdown and of the exception hook\<close>

lemma exception_hook_crashlog_None:
  assumes "crashlogfile a = None"
  shows "files (snd (exception_hook e exctype a)) = files a
       \<and> crashlogfile (snd (exception_hook e exctype a)) = None
       \<and> faulthandler (snd (exception_hook e exctype a)) = faulthandler a"
proof (cases "exctype = Other_Exception")
  case True
  then show ?thesis
    using assms
    by (simp add: exception_hook_chain snd_and_then destroy_crashlogfile_None)
next
  case False
  obtain out a1 where s: "shutdown e 0 a = (out, a1)"
    by (cases "shutdown e 0 a")
  have k: "files a1 = files a" "crashlogfile a1 = None" "faulthandler a1 = faulthandler a"
    using shutdown_crashlog_None [OF assms, of e 0] by (simp_all add: s)
  have c: "exctype = BdbQuit \<or> \<not> issubclass_Exception exctype"
    using False by (cases exctype) simp_all
  show ?thesis
    using c s k by (cases out) (simp_all add: exception_hook_def)
qed

text \<open>
  C9. When no crash log was opened (\<open>_crashlogfile\<close> is \<open>None\<close>),
  \<open>_destroy_crashlogfile\<close> returns at once and changes nothing at all; so the second
  stage of shutdown and the exception hook, for every class of exception, leave the
  files, the absent file object and \<open>faulthandler\<close> as they were.
\<close>

theorem destroy_crashlogfile_noop:
  assumes "crashlogfile a = None"
  shows "destroy_crashlogfile e a = (Returns, a)
       \<and> files (snd (shutdown_stage2 e status a)) = files a
       \<and> crashlogfile (snd (shutdown_stage2 e status a)) = None
       \<and> faulthandler (snd (shutdown_stage2 e status a)) = faulthandler a
       \<and> files (snd (exception_hook e exctype a)) = files a
       \<and> crashlogfile (snd (exception_hook e exctype a)) = None
       \<and> faulthandler (snd (exception_hook e exctype a)) = faulthandler a"
  using assms exception_hook_crashlog_None [OF assms, of e exctype]
  by (simp add: destroy_crashlogfile_None shutdown_stage2_crashlog_None)

theorem destroy_crashlogfile_noop_witness:
  "crashlogfile stale_running_app = None
 \<and> destroy_crashlogfile example_env stale_running_app = (Returns, stale_running_app)
 \<and> files (snd (shutdown_stage2 example_env 0 stale_running_app)) ''/data/crash.log'' = Some []
 \<and> faulthandler (snd (shutdown_stage2 example_env 0 stale_running_app)) = FH_stderr
 \<and> files (snd (exception_hook example_env Other_Exception stale_running_app)) ''/data/crash.log''
     = Some []
 \<and> faulthandler (snd (exception_hook example_env Other_Exception stale_running_app)) = FH_stderr"
proof -
  have h: "crashlogfile stale_running_app = None"
    by (simp add: stale_running_app_def)
  have f: "files stale_running_app ''/data/crash.log'' = Some []"
    "faulthandler stale_running_app = FH_stderr"
    by (simp_all add: stale_running_app_def example_app_def)
  show ?thesis
    using h f
      destroy_crashlogfile_noop [OF h, of example_env 0 Other_Exception]
    by simp
qed

text \<open>
  C8 (as amended). For a fault (an exception class that is a subclass of \<open>Exception\<close>
  other than \<open>BdbQuit\<close>) and a non-empty \<open>sys.argv\<close>, the hook ends with
  \<open>sys.exit(1)\<close> whatever the user answers, after the message handler was removed and
  \<open>_destroy_crashlogfile\<close> was called. When the user accepts, \<open>restart\<close> first starts
  one new process with the relaunch command of the recovered pages; when the user
  declines, no process is started. In both cases graceful shutdown is not run: the latch,
  the executions of \<open>_shutdown\<close>, the save handlers called, the queue of the run loop
  and the exit status of the run loop are as before.
\<close>

theorem exception_hook_exit_status:
  assumes "argv e \<noteq> []"
  shows "fst (exception_hook e Other_Exception a) = SystemExit 1
       \<and> message_handler (snd (exception_hook e Other_Exception a)) = False
       \<and> files (snd (exception_hook e Other_Exception a)) = files (snd (destroy_crashlogfile e a))
       \<and> crashlogfile (snd (exception_hook e Other_Exception a)) =
           crashlogfile (snd (destroy_crashlogfile e a))
       \<and> faulthandler (snd (exception_hook e Other_Exception a)) =
           faulthandler (snd (destroy_crashlogfile e a))
       \<and> shutting_down (snd (exception_hook e Other_Exception a)) = shutting_down a
       \<and> stage2_runs (snd (exception_hook e Other_Exception a)) = stage2_runs a
       \<and> invoked (snd (exception_hook e Other_Exception a)) = invoked a
       \<and> pending (snd (exception_hook e Other_Exception a)) = pending a
       \<and> exit_status (snd (exception_hook e Other_Exception a)) = exit_status a
       \<and> (\<exists>cmd. relaunch_command e (fst (hook_pages a)) = Inr cmd
            \<and> spawned (snd (exception_hook e Other_Exception a)) =
                spawned a @ (if dialog_result e = Accepted then [cmd] else []))"
proof -
  obtain cmd where cmd: "relaunch_command e (fst (hook_pages a)) = Inr cmd"
    using relaunch_command_Inr [OF assms] by blast
  show ?thesis
    using exception_hook_fault [OF cmd] cmd by simp
qed

lemma hook_pages_example: "fst (hook_pages example_app) = [''https://x'', ''https://y'']"
  by (simp add: hook_pages_def recover_pages_def objreg_get_def example_app_def
        example_registry_def)

lemma relaunch_command_example:
  "relaunch_command example_env [''https://x'', ''https://y''] =
     Inr ([''qutebrowser'', ''--debug'', ''https://x'', ''https://y''], None)"
  "relaunch_command accepting_env [''https://x'', ''https://y''] =
     Inr ([''qutebrowser'', ''--debug'', ''https://x'', ''https://y''], None)"
  by (simp_all add: relaunch_command_def accepting_env_def example_env_def basename_examples
        startswith_dash_def)

lemma destroy_crashlogfile_example:
  "files (snd (destroy_crashlogfile example_env example_app)) = Map.empty"
  "files (snd (destroy_crashlogfile accepting_env example_app)) = Map.empty"
  by (simp_all add: destroy_crashlogfile_def os_remove_def accepting_env_def example_env_def
        example_app_def Let_def)

theorem exception_hook_exit_status_witness:
  "argv example_env \<noteq> [] \<and> argv accepting_env \<noteq> []
 \<and> dialog_result example_env = Rejected
 \<and> fst (exception_hook example_env Other_Exception example_app) = SystemExit 1
 \<and> spawned (snd (exception_hook example_env Other_Exception example_app)) = []
 \<and> files (snd (exception_hook example_env Other_Exception example_app)) = Map.empty
 \<and> dialog_result accepting_env = Accepted
 \<and> fst (exception_hook accepting_env Other_Exception example_app) = SystemExit 1
 \<and> spawned (snd (exception_hook accepting_env Other_Exception example_app)) =
     [([''qutebrowser'', ''--debug'', ''https://x'', ''https://y''], None)]
 \<and> shutting_down (snd (exception_hook accepting_env Other_Exception example_app)) = False"
proof -
  have n: "argv example_env \<noteq> []" "argv accepting_env \<noteq> []"
    "dialog_result example_env = Rejected" "dialog_result accepting_env = Accepted"
    by (simp_all add: accepting_env_def example_env_def)
  have s: "spawned example_app = []" "shutting_down example_app = False"
    by (simp_all add: example_app_def)
  show ?thesis
    using n s exception_hook_exit_status [OF n(1), of example_app]
      exception_hook_exit_status [OF n(2), of example_app]
    by (simp add: hook_pages_example relaunch_command_example destroy_crashlogfile_example)
qed

text \<open>
  C8 as stated has exit status 1 only after the user declines. After the user accepts,
  the new process is started and the hook still ends with \<open>sys.exit(1)\<close>.
\<close>

theorem exception_hook_accepted_counterexample:
  "dialog_result accepting_env = Accepted
 \<and> fst (exception_hook accepting_env Other_Exception example_app) = SystemExit 1
 \<and> spawned (snd (exception_hook accepting_env Other_Exception example_app)) =
     [([''qutebrowser'', ''--debug'', ''https://x'', ''https://y''], None)]"
proof -
  have c: "relaunch_command accepting_env (fst (hook_pages example_app)) =
      Inr ([''qutebrowser'', ''--debug'', ''https://x'', ''https://y''], None)"
    by (simp add: hook_pages_example relaunch_command_example)
  have d: "dialog_result accepting_env = Accepted" "spawned example_app = []"
    by (simp_all add: accepting_env_def example_app_def)
  show ?thesis
    using d exception_hook_fault(1) [OF c] exception_hook_fault(8) [OF c] by simp
qed

section \<open>Properties of persistence at shutdown\<close>

lemma warnings_log_msg:
  "warnings (logged (log_msg lvl msg a)) =
     warnings (logged a) @ (if lvl = Warning then [(lvl, msg)] else [])"
  by (simp add: warnings_def log_msg_def)

lemma call_handler_ok:
  assumes "save_raises e h = None \<or> save_raises e h = Some AttributeError"
    and "reg_state_config (registry a) \<noteq> None" and "reg_main_window (registry a) \<noteq> None"
  shows "fst (call_handler e h a) =
           (if h \<noteq> Save_geometry \<and> save_raises e h \<noteq> None then Raises AttributeError
            else Returns)"
    and "reg_state_config (registry (snd (call_handler e h a))) \<noteq> None"
    and "reg_main_window (registry (snd (call_handler e h a))) \<noteq> None"
    and "logged (snd (call_handler e h a)) = logged a"
    and "message_handler (snd (call_handler e h a)) = message_handler a"
  using assms
  by (auto simp add: call_handler_def save_geometry_def objreg_get_def Let_def)

lemma run_to_save_all:
  assumes "\<forall>h. save_raises e h = None \<or> save_raises e h = Some AttributeError"
    and "reg_state_config (registry a) \<noteq> None" and "reg_main_window (registry a) \<noteq> None"
  shows "fst (run_to_save e l a) = Returns
       \<and> invoked (snd (run_to_save e l a)) = invoked a @ map snd l
       \<and> warnings (logged (snd (run_to_save e l a))) = warnings (logged a) @ save_warnings e l
       \<and> message_handler (snd (run_to_save e l a)) = message_handler a"
  using assms(2,3)
proof (induction l arbitrary: a)
  case Nil
  show ?case by (simp add: save_warnings_def)
next
  case (Cons x rest)
  obtain what handler where x: "x = (what, handler)"
    by (cases x)
  define a0 where "a0 = log_msg Debug (''Saving '' @ what @ '' (handler: {})'') a"
  define r where "r = call_handler e handler a0"
  have reg0: "reg_state_config (registry a0) \<noteq> None" "reg_main_window (registry a0) \<noteq> None"
    using Cons.prems by (simp_all add: a0_def)
  have h: "save_raises e handler = None \<or> save_raises e handler = Some AttributeError"
    using assms(1) by blast
  note ok = call_handler_ok [OF h reg0]
  obtain out a1 where r: "r = (out, a1)"
    by (cases r)
  have a1: "a1 = snd r" and out: "out = fst r"
    by (simp_all add: r)
  have unf: "run_to_save e (x # rest) a =
      (case r of
         (Raises AttributeError, a1) \<Rightarrow>
           run_to_save e rest
             (log_msg Debug ''{}'' (log_msg Warning (''Could not save '' @ what @ ''.'') a1))
       | (Returns, a1) \<Rightarrow> run_to_save e rest a1
       | (out, a1) \<Rightarrow> (out, a1))"
    unfolding x r_def a0_def by simp
  have inv: "invoked a1 = invoked a @ [handler]"
    by (simp add: a1 r_def a0_def)
  have lg: "warnings (logged a1) = warnings (logged a)"
    using ok(4) by (simp add: a1 r_def a0_def warnings_log_msg)
  have mh: "message_handler a1 = message_handler a"
    using ok(5) by (simp add: a1 r_def a0_def)
  have reg1: "reg_state_config (registry a1) \<noteq> None" "reg_main_window (registry a1) \<noteq> None"
    using ok(2,3) by (simp_all add: a1 r_def)
  show ?case
  proof (cases "handler \<noteq> Save_geometry \<and> save_raises e handler \<noteq> None")
    case True
    define a2 where "a2 = log_msg Debug ''{}''
        (log_msg Warning (''Could not save '' @ what @ ''.'') a1)"
    have f: "out = Raises AttributeError"
      using ok(1) True by (simp add: out r_def)
    have step: "run_to_save e (x # rest) a = run_to_save e rest a2"
      by (simp add: unf r f a2_def)
    have reg2: "reg_state_config (registry a2) \<noteq> None" "reg_main_window (registry a2) \<noteq> None"
      using reg1 by (simp_all add: a2_def)
    have "invoked a2 = invoked a @ [handler]"
      "warnings (logged a2) = warnings (logged a) @ [(Warning, ''Could not save '' @ what @ ''.'')]"
      "message_handler a2 = message_handler a"
      using inv lg mh by (simp_all add: a2_def warnings_log_msg)
    then show ?thesis
      using Cons.IH [OF reg2] True unfolding step by (simp add: x save_warnings_def)
  next
    case False
    have f: "out = Returns"
      using ok(1) False by (auto simp add: out r_def)
    have step: "run_to_save e (x # rest) a = run_to_save e rest a1"
      by (simp add: unf r f)
    show ?thesis
      using Cons.IH [OF reg1] False inv lg mh unfolding step
      by (auto simp add: x save_warnings_def)
  qed
qed

lemma stage2_prefix_keeps:
  "fst (close_tabs (snd (remove_eventfilter (stage2_begin e a)))) = Returns"
  "registry (snd (close_tabs (snd (remove_eventfilter (stage2_begin e a))))) = registry a"
  "invoked (snd (close_tabs (snd (remove_eventfilter (stage2_begin e a))))) = invoked a"
  "pending (snd (close_tabs (snd (remove_eventfilter (stage2_begin e a))))) = pending a"
  "warnings (logged (snd (close_tabs (snd (remove_eventfilter (stage2_begin e a)))))) =
     warnings (logged a)"
  by (simp_all add: close_tabs_def remove_eventfilter_def stage2_begin_def objreg_get_def
        log_msg_def warnings_def split: option.split)

lemma destroy_crashlogfile_warnings:
  "warnings (logged (snd (destroy_crashlogfile e a))) = warnings (logged a)"
  by (simp add: destroy_crashlogfile_def os_remove_def Let_def log_msg_def warnings_def
        split: option.split)

lemma to_save_always:
  "Save_geometry \<in> set (map snd (to_save config_obj reg))"
  "Quickmarks_save \<in> set (map snd (to_save config_obj reg))"
  by (simp_all add: to_save_def)

lemma shutdown_stage2_saves_all:
  assumes "\<forall>h. save_raises e h = None \<or> save_raises e h = Some AttributeError"
    and "reg_config (registry a) = Some config_obj"
    and "reg_state_config (registry a) \<noteq> None" and "reg_main_window (registry a) \<noteq> None"
  shows "fst (shutdown_stage2 e status a) = Returns
       \<and> invoked (snd (shutdown_stage2 e status a)) =
           invoked a @ map snd (to_save config_obj (registry a))
       \<and> Save_geometry \<in> set (map snd (to_save config_obj (registry a)))
       \<and> Quickmarks_save \<in> set (map snd (to_save config_obj (registry a)))
       \<and> warnings (logged (snd (shutdown_stage2 e status a))) =
           warnings (logged a) @ save_warnings e (to_save config_obj (registry a))
       \<and> message_handler (snd (shutdown_stage2 e status a)) = False
       \<and> registry (snd (shutdown_stage2 e status a)) = objreg_clear
       \<and> pending (snd (shutdown_stage2 e status a)) = pending a @ [Cb_exit status]"
proof -
  define a4 where "a4 = snd (close_tabs (snd (remove_eventfilter (stage2_begin e a))))"
  note pre = stage2_prefix_keeps [of e a, folded a4_def]
  define l where "l = to_save config_obj (registry a)"
  have se: "save_everything e a4 = run_to_save e l a4"
    using assms(2) pre(2) by (simp add: save_everything_def objreg_get_def l_def)
  have reg4: "reg_state_config (registry a4) \<noteq> None" "reg_main_window (registry a4) \<noteq> None"
    using assms(3,4) pre(2) by simp_all
  note all = run_to_save_all [OF assms(1) reg4, of l]
  define a5 where "a5 = snd (run_to_save e l a4)"
  have a5: "fst (run_to_save e l a4) = Returns" "invoked a5 = invoked a @ map snd l"
    "warnings (logged a5) = warnings (logged a) @ save_warnings e l" "pending a5 = pending a"
    using all pre by (simp_all add: a5_def)
  define a6 where "a6 = snd (destroy_crashlogfile e (log_msg Debug ''Deactiving crash log...'' a5))"
  have a6: "invoked a6 = invoked a @ map snd l"
    "warnings (logged a6) = warnings (logged a) @ save_warnings e l" "pending a6 = pending a"
    using a5 by (simp_all add: a6_def destroy_crashlogfile_warnings warnings_log_msg)
  have eq: "shutdown_stage2 e status a =
      (Returns,
       (log_msg Debug ''Deferring QApplication::exit...''
          ((log_msg Debug ''Cleaning up object registry...''
              ((log_msg Debug ''Deactiving message handler...'' a6)
                 \<lparr>message_handler := False\<rparr>))
             \<lparr>registry := objreg_clear\<rparr>))
         \<lparr>pending := pending a6 @ [Cb_exit status]\<rparr>)"
    unfolding shutdown_stage2_chain
    using pre(1) a5(1) a5(4) a6(3)
    by (simp add: and_then_Returns a4_def [symmetric] se a5_def [symmetric] a6_def [symmetric])
  have always: "Save_geometry \<in> set (map snd l)" "Quickmarks_save \<in> set (map snd l)"
    by (simp_all only: l_def to_save_always)
  have fin: "invoked (snd (shutdown_stage2 e status a)) = invoked a @ map snd l"
    "warnings (logged (snd (shutdown_stage2 e status a))) =
       warnings (logged a) @ save_warnings e l"
    "message_handler (snd (shutdown_stage2 e status a)) = False"
    "registry (snd (shutdown_stage2 e status a)) = objreg_clear"
    "pending (snd (shutdown_stage2 e status a)) = pending a @ [Cb_exit status]"
    "fst (shutdown_stage2 e status a) = Returns"
    using a6 by (simp_all add: eq warnings_log_msg)
  show ?thesis
    using always fin unfolding l_def by blast
qed

text \<open>
  C2 (as amended). With the configuration, the state configuration and the main window
  registered, if every save handler that raises raises \<open>AttributeError\<close>, the second
  stage of shutdown calls every handler of its list in order (the window geometry and the
  quickmarks always among them), logs one warning for each failing handler and nothing
  else at that level, and goes on to remove the message handler, clear the registry and
  queue the exit with the given status.
\<close>

theorem shutdown_stage2_persistence:
  assumes "\<forall>h. save_raises e h = None \<or> save_raises e h = Some AttributeError"
    and "reg_config (registry a) = Some config_obj"
    and "reg_state_config (registry a) \<noteq> None" and "reg_main_window (registry a) \<noteq> None"
  shows "fst (shutdown_stage2 e status a) = Returns
       \<and> invoked (snd (shutdown_stage2 e status a)) =
           invoked a @ map snd (to_save config_obj (registry a))
       \<and> Save_geometry \<in> set (map snd (to_save config_obj (registry a)))
       \<and> Quickmarks_save \<in> set (map snd (to_save config_obj (registry a)))
       \<and> warnings (logged (snd (shutdown_stage2 e status a))) =
           warnings (logged a) @ save_warnings e (to_save config_obj (registry a))
       \<and> message_handler (snd (shutdown_stage2 e status a)) = False
       \<and> registry (snd (shutdown_stage2 e status a)) = objreg_clear
       \<and> pending (snd (shutdown_stage2 e status a)) = pending a @ [Cb_exit status]"
  by (rule shutdown_stage2_saves_all [OF assms])

lemma to_save_example:
  "to_save \<lparr>auto_save_config = True\<rparr> example_registry =
     [(''config'', Config_save), (''keyconfig'', KeyConfig_save),
      (''window geometry'', Save_geometry), (''quickmarks'', Quickmarks_save),
      (''command history'', CommandHistory_save), (''window geometry'', StateConfig_save),
      (''cookies'', CookieJar_save)]"
  by (simp add: to_save_def example_registry_def objreg_get_def)

lemma call_handler_raises:
  assumes "h \<noteq> Save_geometry" and "save_raises e h = Some ex"
  shows "call_handler e h a = (Raises ex, a\<lparr>invoked := invoked a @ [h]\<rparr>)"
  using assms by (simp add: call_handler_def Let_def)

lemma call_handler_returns:
  assumes "h \<noteq> Save_geometry" and "save_raises e h = None"
  shows "call_handler e h a = (Returns, a\<lparr>invoked := invoked a @ [h]\<rparr>)"
  using assms by (simp add: call_handler_def Let_def)

lemma config_OSError_run:
  "fst (run_to_save config_OSError_env ((''config'', Config_save) # rest) a) = Raises OSError"
  "invoked (snd (run_to_save config_OSError_env ((''config'', Config_save) # rest) a)) =
     invoked a @ [Config_save]"
  "pending (snd (run_to_save config_OSError_env ((''config'', Config_save) # rest) a)) = pending a"
proof -
  have c: "call_handler config_OSError_env Config_save b =
      (Raises OSError, b\<lparr>invoked := invoked b @ [Config_save]\<rparr>)" for b
    by (rule call_handler_raises) (simp_all add: config_OSError_env_def config_OSError_def)
  show "fst (run_to_save config_OSError_env ((''config'', Config_save) # rest) a) = Raises OSError"
    "invoked (snd (run_to_save config_OSError_env ((''config'', Config_save) # rest) a)) =
       invoked a @ [Config_save]"
    "pending (snd (run_to_save config_OSError_env ((''config'', Config_save) # rest) a)) = pending a"
    by (simp_all add: c)
qed

lemma cookies_OSError_run:
  assumes "reg_state_config (registry a) \<noteq> None" and "reg_main_window (registry a) \<noteq> None"
  shows "fst (run_to_save cookies_OSError_env
               (to_save \<lparr>auto_save_config = True\<rparr> example_registry) a) = Raises OSError"
    and "invoked (snd (run_to_save cookies_OSError_env
               (to_save \<lparr>auto_save_config = True\<rparr> example_registry) a)) =
           invoked a @ [Config_save, KeyConfig_save, Save_geometry, Quickmarks_save,
                        CommandHistory_save, StateConfig_save, CookieJar_save]"
proof -
  have s: "save_raises cookies_OSError_env = cookies_OSError"
    by (simp add: cookies_OSError_env_def)
  show "fst (run_to_save cookies_OSError_env
               (to_save \<lparr>auto_save_config = True\<rparr> example_registry) a) = Raises OSError"
    and "invoked (snd (run_to_save cookies_OSError_env
               (to_save \<lparr>auto_save_config = True\<rparr> example_registry) a)) =
           invoked a @ [Config_save, KeyConfig_save, Save_geometry, Quickmarks_save,
                        CommandHistory_save, StateConfig_save, CookieJar_save]"
    using assms
    by (auto simp add: to_save_example call_handler_def save_geometry_def objreg_get_def
          Let_def s cookies_OSError_def log_msg_def)
qed

lemma and_then_not_Returns:
  "fst r \<noteq> Returns \<Longrightarrow> and_then r f = r"
  by (cases r; cases "fst r") (simp_all add: and_then_def)

lemma shutdown_stage2_save_raises:
  assumes "reg_config (registry a) = Some config_obj"
    and "fst (run_to_save e (to_save config_obj (registry a))
                (snd (close_tabs (snd (remove_eventfilter (stage2_begin e a)))))) \<noteq> Returns"
  shows "shutdown_stage2 e s a =
           run_to_save e (to_save config_obj (registry a))
             (snd (close_tabs (snd (remove_eventfilter (stage2_begin e a)))))"
proof -
  define a4 where "a4 = snd (close_tabs (snd (remove_eventfilter (stage2_begin e a))))"
  have se: "save_everything e a4 = run_to_save e (to_save config_obj (registry a)) a4"
    using assms(1) stage2_prefix_keeps(2) [of e a]
    by (simp add: save_everything_def objreg_get_def a4_def)
  show ?thesis
    unfolding shutdown_stage2_chain
    using assms(2)
    by (simp add: and_then_Returns a4_def [symmetric] se and_then_not_Returns)
qed

text \<open>
  C2 as stated isolates every exception of a save handler. The loop catches
  \<open>AttributeError\<close> only: when saving the cookies raises \<open>OSError\<close>, the exception
  leaves \<open>_shutdown\<close> and no exit is queued; when saving the configuration raises
  \<open>OSError\<close>, no other handler is called either.
\<close>

theorem shutdown_stage2_OSError_counterexample:
  "save_raises cookies_OSError_env CookieJar_save = Some OSError
 \<and> fst (shutdown_stage2 cookies_OSError_env 0 example_app) = Raises OSError
 \<and> invoked (snd (shutdown_stage2 cookies_OSError_env 0 example_app)) =
     [Config_save, KeyConfig_save, Save_geometry, Quickmarks_save,
      CommandHistory_save, StateConfig_save, CookieJar_save]
 \<and> pending (snd (shutdown_stage2 cookies_OSError_env 0 example_app)) = []
 \<and> save_raises config_OSError_env Config_save = Some OSError
 \<and> fst (shutdown_stage2 config_OSError_env 0 example_app) = Raises OSError
 \<and> invoked (snd (shutdown_stage2 config_OSError_env 0 example_app)) = [Config_save]
 \<and> pending (snd (shutdown_stage2 config_OSError_env 0 example_app)) = []"
proof -
  have reg: "registry example_app = example_registry"
    "reg_config (registry example_app) = Some \<lparr>auto_save_config = True\<rparr>"
    "invoked example_app = []" "pending example_app = []"
    by (simp_all add: example_app_def example_registry_def)
  have s: "save_raises cookies_OSError_env CookieJar_save = Some OSError"
    "save_raises config_OSError_env Config_save = Some OSError"
    by (simp_all add: cookies_OSError_env_def config_OSError_env_def cookies_OSError_def
          config_OSError_def)
  define b where "b = snd (close_tabs (snd (remove_eventfilter (stage2_begin cookies_OSError_env example_app))))"
  define c where "c = snd (close_tabs (snd (remove_eventfilter (stage2_begin config_OSError_env example_app))))"
  have b: "registry b = example_registry" "invoked b = []" "pending b = []"
    using reg by (simp_all add: b_def stage2_prefix_keeps)
  have c: "registry c = example_registry" "invoked c = []" "pending c = []"
    using reg by (simp_all add: c_def stage2_prefix_keeps)
  have breg: "reg_state_config (registry b) \<noteq> None" "reg_main_window (registry b) \<noteq> None"
    by (simp_all add: b example_registry_def)
  note cookies = cookies_OSError_run [OF breg]
  have e1: "shutdown_stage2 cookies_OSError_env 0 example_app =
      run_to_save cookies_OSError_env (to_save \<lparr>auto_save_config = True\<rparr> example_registry) b"
    using shutdown_stage2_save_raises [OF reg(2), of cookies_OSError_env 0] cookies(1)
    by (simp add: reg(1) b_def)
  have e2: "shutdown_stage2 config_OSError_env 0 example_app =
      run_to_save config_OSError_env (to_save \<lparr>auto_save_config = True\<rparr> example_registry) c"
    using shutdown_stage2_save_raises [OF reg(2), of config_OSError_env 0]
      config_OSError_run(1) [of _ c]
    by (simp add: reg(1) c_def to_save_example)
  have cfg: "fst (run_to_save config_OSError_env
                    (to_save \<lparr>auto_save_config = True\<rparr> example_registry) c) = Raises OSError"
    "invoked (snd (run_to_save config_OSError_env
                    (to_save \<lparr>auto_save_config = True\<rparr> example_registry) c)) = [Config_save]"
    unfolding to_save_example by (simp_all only: config_OSError_run c append_Nil)
  show ?thesis
    using s cookies cfg b c by (simp add: e1 e2)
qed

theorem shutdown_stage2_persistence_witness:
  "save_raises cookies_AttributeError_env CookieJar_save = Some AttributeError
 \<and> fst (shutdown_stage2 cookies_AttributeError_env 0 example_app) = Returns
 \<and> invoked (snd (shutdown_stage2 cookies_AttributeError_env 0 example_app)) =
     [Config_save, KeyConfig_save, Save_geometry, Quickmarks_save,
      CommandHistory_save, StateConfig_save, CookieJar_save]
 \<and> warnings (logged (snd (shutdown_stage2 cookies_AttributeError_env 0 example_app))) =
     [(Warning, ''Could not save cookies.'')]
 \<and> pending (snd (shutdown_stage2 cookies_AttributeError_env 0 example_app)) = [Cb_exit 0]"
proof -
  have s: "save_raises cookies_AttributeError_env = cookies_AttributeError"
    by (simp add: cookies_AttributeError_env_def)
  have h1: "\<forall>h. save_raises cookies_AttributeError_env h = None
      \<or> save_raises cookies_AttributeError_env h = Some AttributeError"
    by (simp add: s cookies_AttributeError_def)
  have h2: "reg_config (registry example_app) = Some \<lparr>auto_save_config = True\<rparr>"
    and h3: "reg_state_config (registry example_app) \<noteq> None"
    and h4: "reg_main_window (registry example_app) \<noteq> None"
    by (simp_all add: example_app_def example_registry_def)
  have r: "registry example_app = example_registry" "invoked example_app = []"
    "pending example_app = []" "warnings (logged example_app) = []"
    by (simp_all add: example_app_def warnings_def)
  have w: "save_warnings cookies_AttributeError_env
      (to_save \<lparr>auto_save_config = True\<rparr> example_registry) =
      [(Warning, ''Could not save cookies.'')]"
    by (simp add: to_save_example save_warnings_def s cookies_AttributeError_def)
  show ?thesis
    using shutdown_stage2_persistence [OF h1 h2 h3 h4, of 0] r w
    by (simp add: to_save_example s cookies_AttributeError_def)
qed

section \<open>Properties of the signal handlers\<close>






end
